theory Spec2Isabelle
  imports Complex_Main "HOL-Library.Monad_Syntax" "HOL-Library.AList"
begin

section \<open>Numbers and vectors\<close>

text \<open>
  The engine computes with JavaScript numbers. The embedding uses the real numbers:
  every arithmetic operation of the source is the exact operation on \<open>real\<close>, so
  rounding, infinities and NaN are outside the model.

  \<open>Vector2\<close> is the class of \<open>utils/Vector2\<close>. Its methods return fresh vectors, so
  a vector is a value. The methods are named \<open>Vector2_m\<close> for the method \<open>m\<close>.
\<close>

datatype Vector2 = Vector2 (x: real) (y: real)

text \<open>\<open>constructor(x: number = 0, y: number = 0)\<close>: an omitted argument is \<open>None\<close>.\<close>

definition Vector2_new :: "real option \<Rightarrow> real option \<Rightarrow> Vector2" where
  "Vector2_new a b =
     Vector2 (case a of None \<Rightarrow> 0 | Some v \<Rightarrow> v) (case b of None \<Rightarrow> 0 | Some v \<Rightarrow> v)"

definition Vector2_zero :: Vector2 where
  "Vector2_zero = Vector2 0 0"

definition Vector2_one :: Vector2 where
  "Vector2_one = Vector2 1 1"

definition Vector2_add :: "Vector2 \<Rightarrow> Vector2 \<Rightarrow> Vector2" where
  "Vector2_add u v = Vector2 (x u + x v) (y u + y v)"

definition Vector2_subtract :: "Vector2 \<Rightarrow> Vector2 \<Rightarrow> Vector2" where
  "Vector2_subtract u v = Vector2 (x u - x v) (y u - y v)"

definition Vector2_multiply :: "Vector2 \<Rightarrow> real \<Rightarrow> Vector2" where
  "Vector2_multiply u s = Vector2 (x u * s) (y u * s)"

datatype error = DivisionByZero

text \<open>\<open>divide\<close> throws on a zero scalar.\<close>

definition Vector2_divide :: "Vector2 \<Rightarrow> real \<Rightarrow> error + Vector2" where
  "Vector2_divide u s = (if s = 0 then Inl DivisionByZero else Inr (Vector2 (x u / s) (y u / s)))"

definition Vector2_length :: "Vector2 \<Rightarrow> real" where
  "Vector2_length u = sqrt (x u * x u + y u * y u)"

definition Vector2_lengthSquared :: "Vector2 \<Rightarrow> real" where
  "Vector2_lengthSquared u = x u * x u + y u * y u"

text \<open>
  \<open>normalize\<close> returns the zero vector for a vector of length zero and divides by the
  length otherwise. The throwing branch of \<open>divide\<close> is then dead
  (lemma \<open>Vector2_normalize_divide\<close> below), so \<open>normalize\<close> is a total function.
\<close>

definition Vector2_normalize :: "Vector2 \<Rightarrow> Vector2" where
  "Vector2_normalize u =
     (let len = Vector2_length u in
      if len = 0 then Vector2 0 0
      else (case Vector2_divide u len of Inr r \<Rightarrow> r | Inl e \<Rightarrow> Vector2 0 0))"

definition Vector2_dot :: "Vector2 \<Rightarrow> Vector2 \<Rightarrow> real" where
  "Vector2_dot u v = x u * x v + y u * y v"

definition Vector2_distance :: "Vector2 \<Rightarrow> Vector2 \<Rightarrow> real" where
  "Vector2_distance u v =
     (let dx = x u - x v; dy = y u - y v in sqrt (dx * dx + dy * dy))"

definition Vector2_rotate :: "Vector2 \<Rightarrow> real \<Rightarrow> Vector2" where
  "Vector2_rotate u angle =
     (let c = cos angle; s = sin angle in Vector2 (x u * c - y u * s) (x u * s + y u * c))"

section \<open>Constants and materials\<close>

text \<open>
  \<open>PhysicsConstants\<close> is a mutable object of the source; every function that reads it
  takes it as its first argument. \<open>PhysicsConstants_default\<close> holds the values of
  \<open>PhysicsTypes.ts\<close>.
\<close>

record PhysicsConstants =
  GRAVITY :: Vector2
  FIXED_TIMESTEP :: real
  MAX_VELOCITY :: real
  SLEEP_THRESHOLD :: real
  SLEEP_TIME :: real
  CORRECTION_PERCENT :: real
  CORRECTION_SLOP :: real
  POSITION_ITERATIONS :: nat
  VELOCITY_ITERATIONS :: nat

definition PhysicsConstants_default :: PhysicsConstants where
  "PhysicsConstants_default =
     \<lparr> GRAVITY = Vector2 0 980, FIXED_TIMESTEP = 1 / 60, MAX_VELOCITY = 5000,
       SLEEP_THRESHOLD = 0.5, SLEEP_TIME = 0.5, CORRECTION_PERCENT = 0.4,
       CORRECTION_SLOP = 0.05, POSITION_ITERATIONS = 4, VELOCITY_ITERATIONS = 6 \<rparr>"

datatype BodyType = STATIC | KINEMATIC | DYNAMIC

record PhysicsMaterial =
  friction :: real
  restitution :: real
  density :: real

text \<open>
  \<open>constructor(friction = 0.4, restitution = 0.2, density = 1.0)\<close> stores its arguments
  as they are; the three setters clamp.
\<close>

definition PhysicsMaterial_new :: "real option \<Rightarrow> real option \<Rightarrow> real option \<Rightarrow> PhysicsMaterial" where
  "PhysicsMaterial_new f r d =
     \<lparr> friction = (case f of None \<Rightarrow> 0.4 | Some v \<Rightarrow> v),
       restitution = (case r of None \<Rightarrow> 0.2 | Some v \<Rightarrow> v),
       density = (case d of None \<Rightarrow> 1.0 | Some v \<Rightarrow> v) \<rparr>"

definition PhysicsMaterial_set_friction :: "real \<Rightarrow> PhysicsMaterial \<Rightarrow> PhysicsMaterial" where
  "PhysicsMaterial_set_friction v m = m\<lparr>friction := max 0 (min 1 v)\<rparr>"

definition PhysicsMaterial_set_restitution :: "real \<Rightarrow> PhysicsMaterial \<Rightarrow> PhysicsMaterial" where
  "PhysicsMaterial_set_restitution v m = m\<lparr>restitution := max 0 (min 1 v)\<rparr>"

definition PhysicsMaterial_set_density :: "real \<Rightarrow> PhysicsMaterial \<Rightarrow> PhysicsMaterial" where
  "PhysicsMaterial_set_density v m = m\<lparr>density := max 0.001 v\<rparr>"

definition PhysicsMaterial_default :: PhysicsMaterial where
  "PhysicsMaterial_default = PhysicsMaterial_new (Some 0.4) (Some 0.2) (Some 1.0)"

section \<open>Objects: transforms, components, colliders\<close>

text \<open>
  Game objects, rigid bodies and colliders are objects that refer to each other, so the
  embedding keeps them in a store and refers to them by handles (natural numbers). The
  handle of a collider is its \<open>id\<close>, which the source draws from a counter and never
  changes. A game object owns one \<open>Transform\<close>; the handle of a transform is the handle
  of its game object.

  \<open>Transform\<close> caches its world position behind a dirty flag that every write of the
  position or rotation sets; the embedding recomputes the world position at every read and
  leaves the cache out. The list of children is only used to spread the dirty flag.
\<close>

record Transform =
  position :: Vector2
  rotation :: real
  scale :: Vector2
  parent :: "nat option"

text \<open>
  \<open>rigidBody\<close> is what \<open>getComponent(RigidBody)\<close> returns: the first rigid body in the
  list of components, if there is one.
\<close>

record GameObject =
  transform :: Transform
  rigidBody :: "nat option"

record Component =
  gameObject :: "nat option"
  enabled :: bool

record RigidBody = Component +
  bodyType :: BodyType
  mass :: real
  velocity :: Vector2
  angularVelocity :: real
  acceleration :: Vector2
  force :: Vector2
  torque :: real
  useGravity :: bool
  drag :: real
  angularDrag :: real
  gravityScale :: real
  isSleeping :: bool
  sleepTimer :: real

record AABB =
  aabb_min :: Vector2
  aabb_max :: Vector2

text \<open>The two subclasses of \<open>Collider\<close>, with the field each adds.\<close>

datatype Shape = BoxCollider (box_size: Vector2) | CircleCollider (radius: real)

record Collider = Component +
  isTrigger :: bool
  material :: PhysicsMaterial
  offset :: Vector2
  bounds :: "AABB option"
  currentCollisions :: "nat set"
  previousCollisions :: "nat set"
  shape :: Shape

record Heap =
  objects :: "nat \<Rightarrow> GameObject"
  bodies :: "nat \<Rightarrow> RigidBody"
  colliderObjs :: "nat \<Rightarrow> Collider"

text \<open>\<open>set radius(value)\<close> of \<open>CircleCollider\<close>; the field starts at 25.\<close>

definition CircleCollider_set_radius :: "real \<Rightarrow> Shape" where
  "CircleCollider_set_radius v = CircleCollider (max 0.1 v)"

text \<open>
  What the radius setter and the initial value guarantee of every circle collider.
\<close>

definition Collider_radius_ok :: "Collider \<Rightarrow> bool" where
  "Collider_radius_ok c = (case shape c of BoxCollider s \<Rightarrow> True | CircleCollider r \<Rightarrow> 0.1 \<le> r)"

subsection \<open>Transform\<close>

text \<open>
  \<open>updateWorldTransform\<close>: world position, rotation and scale of the transform of game
  object \<open>g\<close>. The source recurses into the parent; on a cyclic chain of parents it does
  not return, which is the value \<open>None\<close> here.
\<close>

partial_function (option) Transform_updateWorldTransform ::
  "(nat \<Rightarrow> GameObject) \<Rightarrow> nat \<Rightarrow> (Vector2 \<times> real \<times> Vector2) option" where
  "Transform_updateWorldTransform objs g =
     (case parent (transform (objs g)) of
        None \<Rightarrow> Some (position (transform (objs g)), rotation (transform (objs g)),
                      scale (transform (objs g)))
      | Some p \<Rightarrow>
          Option.bind (Transform_updateWorldTransform objs p) (\<lambda>pw.
            Some (Vector2_add (fst pw)
                    (Vector2_rotate
                       (Vector2 (x (position (transform (objs g))) * x (snd (snd pw)))
                                (y (position (transform (objs g))) * y (snd (snd pw))))
                       (fst (snd pw))),
                  fst (snd pw) + rotation (transform (objs g)),
                  Vector2 (x (snd (snd pw)) * x (scale (transform (objs g))))
                          (y (snd (snd pw)) * y (scale (transform (objs g)))))))"

definition Transform_getWorldPosition :: "Heap \<Rightarrow> nat \<Rightarrow> Vector2 option" where
  "Transform_getWorldPosition h g = map_option fst (Transform_updateWorldTransform (objects h) g)"

definition Transform_set_position :: "Heap \<Rightarrow> nat \<Rightarrow> Vector2 \<Rightarrow> Heap" where
  "Transform_set_position h g v =
     h\<lparr>objects := (objects h)(g := (objects h g)\<lparr>transform := (transform (objects h g))\<lparr>position := v\<rparr>\<rparr>)\<rparr>"

definition Transform_translate :: "Heap \<Rightarrow> nat \<Rightarrow> Vector2 \<Rightarrow> Heap" where
  "Transform_translate h g delta =
     h\<lparr>objects := (objects h)(g := (objects h g)\<lparr>transform :=
          (transform (objects h g))\<lparr>position := Vector2_add (position (transform (objects h g))) delta\<rparr>\<rparr>)\<rparr>"

definition Transform_rotate :: "Heap \<Rightarrow> nat \<Rightarrow> real \<Rightarrow> Heap" where
  "Transform_rotate h g deltaRadians =
     h\<lparr>objects := (objects h)(g := (objects h g)\<lparr>transform :=
          (transform (objects h g))\<lparr>rotation := rotation (transform (objects h g)) + deltaRadians\<rparr>\<rparr>)\<rparr>"

subsection \<open>Collider\<close>

definition Collider_getWorldPosition :: "Heap \<Rightarrow> nat \<Rightarrow> Vector2 option" where
  "Collider_getWorldPosition h c =
     (case gameObject (colliderObjs h c) of
        None \<Rightarrow> Some (offset (colliderObjs h c))
      | Some g \<Rightarrow> map_option (\<lambda>p. Vector2_add p (offset (colliderObjs h c))) (Transform_getWorldPosition h g))"

text \<open>\<open>computeBounds\<close> of \<open>BoxCollider\<close> and of \<open>CircleCollider\<close>, from the world position.\<close>

definition Shape_computeBounds :: "Shape \<Rightarrow> Vector2 \<Rightarrow> AABB" where
  "Shape_computeBounds s worldPos =
     (case s of
        BoxCollider sz \<Rightarrow>
          (let halfSize = Vector2_multiply sz 0.5 in
           \<lparr> aabb_min = Vector2 (x worldPos - x halfSize) (y worldPos - y halfSize),
             aabb_max = Vector2 (x worldPos + x halfSize) (y worldPos + y halfSize) \<rparr>)
      | CircleCollider r \<Rightarrow>
          \<lparr> aabb_min = Vector2 (x worldPos - r) (y worldPos - r),
            aabb_max = Vector2 (x worldPos + r) (y worldPos + r) \<rparr>)"

definition Collider_computeBounds :: "Heap \<Rightarrow> nat \<Rightarrow> AABB option" where
  "Collider_computeBounds h c =
     map_option (Shape_computeBounds (shape (colliderObjs h c))) (Collider_getWorldPosition h c)"

definition Collider_updateBounds :: "Heap \<Rightarrow> nat \<Rightarrow> Heap option" where
  "Collider_updateBounds h c =
     map_option (\<lambda>b. h\<lparr>colliderObjs := (colliderObjs h)(c := (colliderObjs h c)\<lparr>bounds := Some b\<rparr>)\<rparr>)
       (Collider_computeBounds h c)"

text \<open>\<open>getBounds\<close> fills the cache when it is empty and returns the cached box.\<close>

definition Collider_getBounds :: "Heap \<Rightarrow> nat \<Rightarrow> (AABB \<times> Heap) option" where
  "Collider_getBounds h c =
     (case bounds (colliderObjs h c) of
        Some b \<Rightarrow> Some (b, h)
      | None \<Rightarrow>
          Option.bind (Collider_updateBounds h c) (\<lambda>h'.
            case bounds (colliderObjs h' c) of Some b \<Rightarrow> Some (b, h') | None \<Rightarrow> None))"

definition Collider_updateCollisionState :: "Heap \<Rightarrow> nat \<Rightarrow> Heap" where
  "Collider_updateCollisionState h c =
     h\<lparr>colliderObjs := (colliderObjs h)(c := (colliderObjs h c)
         \<lparr>currentCollisions := {}, previousCollisions := currentCollisions (colliderObjs h c)\<rparr>)\<rparr>"

definition Collider_addCollision :: "Heap \<Rightarrow> nat \<Rightarrow> nat \<Rightarrow> Heap" where
  "Collider_addCollision h c otherCollider =
     h\<lparr>colliderObjs := (colliderObjs h)(c := (colliderObjs h c)
         \<lparr>currentCollisions := insert otherCollider (currentCollisions (colliderObjs h c))\<rparr>)\<rparr>"

definition Collider_isCollisionEnter :: "Heap \<Rightarrow> nat \<Rightarrow> nat \<Rightarrow> bool" where
  "Collider_isCollisionEnter h c otherCollider =
     (otherCollider \<in> currentCollisions (colliderObjs h c) \<and>
      otherCollider \<notin> previousCollisions (colliderObjs h c))"

definition Collider_isCollisionStay :: "Heap \<Rightarrow> nat \<Rightarrow> nat \<Rightarrow> bool" where
  "Collider_isCollisionStay h c otherCollider =
     (otherCollider \<in> currentCollisions (colliderObjs h c) \<and>
      otherCollider \<in> previousCollisions (colliderObjs h c))"

definition Collider_isCollisionExit :: "Heap \<Rightarrow> nat \<Rightarrow> nat \<Rightarrow> bool" where
  "Collider_isCollisionExit h c otherCollider =
     (otherCollider \<notin> currentCollisions (colliderObjs h c) \<and>
      otherCollider \<in> previousCollisions (colliderObjs h c))"

section \<open>Narrow phase: CollisionDetection\<close>

record ContactPoint =
  point :: Vector2
  normal :: Vector2
  penetration :: real

text \<open>
  \<open>CollisionInfo\<close>; its \<open>normal\<close> and \<open>penetration\<close> are \<open>info_normal\<close> and
  \<open>info_penetration\<close> here, since a record field name is global.
\<close>

record CollisionInfo =
  colliderA :: nat
  colliderB :: nat
  contacts :: "ContactPoint list"
  info_normal :: Vector2
  info_penetration :: real

definition CollisionInfo_swapColliders :: "CollisionInfo \<Rightarrow> CollisionInfo" where
  "CollisionInfo_swapColliders info =
     info\<lparr>colliderA := colliderB info, colliderB := colliderA info,
          info_normal := Vector2_multiply (info_normal info) (- 1)\<rparr>"

text \<open>
  Each test of the source first reads the bounds or world positions of its two colliders
  and then computes on them. The computation is a function of its own here
  (\<open>testAABB_bounds\<close>, \<open>testCircleCircle_at\<close>, \<open>testAABBCircle_at\<close>); the function with
  the source's name reads the store and calls it.
\<close>

definition testAABB_bounds :: "nat \<Rightarrow> nat \<Rightarrow> AABB \<Rightarrow> AABB \<Rightarrow> CollisionInfo option" where
  "testAABB_bounds a b boundsA boundsB =
     (if x (aabb_max boundsA) < x (aabb_min boundsB) \<or>
         x (aabb_min boundsA) > x (aabb_max boundsB) \<or>
         y (aabb_max boundsA) < y (aabb_min boundsB) \<or>
         y (aabb_min boundsA) > y (aabb_max boundsB)
      then None
      else
        let overlapX1 = x (aabb_max boundsA) - x (aabb_min boundsB);
            overlapX2 = x (aabb_max boundsB) - x (aabb_min boundsA);
            overlapY1 = y (aabb_max boundsA) - y (aabb_min boundsB);
            overlapY2 = y (aabb_max boundsB) - y (aabb_min boundsA);
            overlapX = min overlapX1 overlapX2;
            overlapY = min overlapY1 overlapY2;
            pen = (if overlapX < overlapY then overlapX else overlapY);
            n = (if overlapX < overlapY
                 then (if overlapX1 < overlapX2 then Vector2 1 0 else Vector2 (- 1) 0)
                 else (if overlapY1 < overlapY2 then Vector2 0 1 else Vector2 0 (- 1)));
            contactPoint =
              \<lparr> point =
                  Vector2_multiply
                    (Vector2_new
                       (Some (max (x (aabb_min boundsA)) (x (aabb_min boundsB)) +
                              min (x (aabb_max boundsA)) (x (aabb_max boundsB))))
                       None)
                    0.5,
                normal = n, penetration = pen \<rparr>
        in Some \<lparr> colliderA = a, colliderB = b, contacts = [contactPoint],
                  info_normal = n, info_penetration = pen \<rparr>)"

definition testAABB :: "Heap \<Rightarrow> nat \<Rightarrow> nat \<Rightarrow> (CollisionInfo option \<times> Heap) option" where
  "testAABB h a b =
     Option.bind (Collider_getBounds h a) (\<lambda>ra.
     Option.bind (Collider_getBounds (snd ra) b) (\<lambda>rb.
       Some (testAABB_bounds a b (fst ra) (fst rb), snd rb)))"

definition testCircleCircle_at ::
  "nat \<Rightarrow> nat \<Rightarrow> Vector2 \<Rightarrow> real \<Rightarrow> Vector2 \<Rightarrow> real \<Rightarrow> CollisionInfo option" where
  "testCircleCircle_at a b posA radiusA posB radiusB =
     (let delta = Vector2_subtract posB posA;
          distanceSquared = Vector2_lengthSquared delta;
          radiusSum = radiusA + radiusB
      in if distanceSquared \<ge> radiusSum * radiusSum then None
         else
           let distance = sqrt distanceSquared;
               pen = radiusSum - distance;
               n = (if distance > 0.0001 then Vector2_normalize delta else Vector2 1 0);
               contactPos = Vector2_add posA (Vector2_multiply n radiusA);
               contactPoint = \<lparr> point = contactPos, normal = n, penetration = pen \<rparr>
           in Some \<lparr> colliderA = a, colliderB = b, contacts = [contactPoint],
                     info_normal = n, info_penetration = pen \<rparr>)"

text \<open>The radius arguments are \<open>a.radius\<close> and \<open>b.radius\<close> of the two circle colliders.\<close>

definition testCircleCircle ::
  "Heap \<Rightarrow> nat \<Rightarrow> real \<Rightarrow> nat \<Rightarrow> real \<Rightarrow> (CollisionInfo option \<times> Heap) option" where
  "testCircleCircle h a radiusA b radiusB =
     Option.bind (Collider_getWorldPosition h a) (\<lambda>posA.
     Option.bind (Collider_getWorldPosition h b) (\<lambda>posB.
       Some (testCircleCircle_at a b posA radiusA posB radiusB, h)))"

definition testAABBCircle_at ::
  "nat \<Rightarrow> nat \<Rightarrow> AABB \<Rightarrow> Vector2 \<Rightarrow> real \<Rightarrow> CollisionInfo option" where
  "testAABBCircle_at box circle boxBounds circlePos circleRadius =
     (let closestX = max (x (aabb_min boxBounds)) (min (x circlePos) (x (aabb_max boxBounds)));
          closestY = max (y (aabb_min boxBounds)) (min (y circlePos) (y (aabb_max boxBounds)));
          closest = Vector2 closestX closestY;
          delta = Vector2_subtract circlePos closest;
          distanceSquared = Vector2_lengthSquared delta
      in if distanceSquared \<ge> circleRadius * circleRadius then None
         else
           let distance = sqrt distanceSquared;
               pen = circleRadius - distance;
               n = (if distance > 0.0001 then Vector2_normalize delta
                    else
                      let distToLeft = x circlePos - x (aabb_min boxBounds);
                          distToRight = x (aabb_max boxBounds) - x circlePos;
                          distToTop = y circlePos - y (aabb_min boxBounds);
                          distToBottom = y (aabb_max boxBounds) - y circlePos;
                          minDist = min (min (min distToLeft distToRight) distToTop) distToBottom
                      in if minDist = distToLeft then Vector2 (- 1) 0
                         else if minDist = distToRight then Vector2 1 0
                         else if minDist = distToTop then Vector2 0 (- 1)
                         else Vector2 0 1);
               contactPoint = \<lparr> point = closest, normal = n, penetration = pen \<rparr>
           in Some \<lparr> colliderA = box, colliderB = circle, contacts = [contactPoint],
                     info_normal = n, info_penetration = pen \<rparr>)"

definition testAABBCircle ::
  "Heap \<Rightarrow> nat \<Rightarrow> nat \<Rightarrow> real \<Rightarrow> (CollisionInfo option \<times> Heap) option" where
  "testAABBCircle h box circle circleRadius =
     Option.bind (Collider_getBounds h box) (\<lambda>rb.
     Option.bind (Collider_getWorldPosition (snd rb) circle) (\<lambda>circlePos.
       Some (testAABBCircle_at box circle (fst rb) circlePos circleRadius, snd rb)))"

text \<open>
  The dispatcher. With the two subclasses of this repository its last branch
  (\<open>return null\<close> for any other kind of collider) is never taken.
\<close>

definition detect :: "Heap \<Rightarrow> nat \<Rightarrow> nat \<Rightarrow> (CollisionInfo option \<times> Heap) option" where
  "detect h a b =
     (case (shape (colliderObjs h a), shape (colliderObjs h b)) of
        (BoxCollider sa, BoxCollider sb) \<Rightarrow> testAABB h a b
      | (CircleCollider ra, CircleCollider rb) \<Rightarrow> testCircleCircle h a ra b rb
      | (BoxCollider sa, CircleCollider rb) \<Rightarrow> testAABBCircle h a b rb
      | (CircleCollider ra, BoxCollider sb) \<Rightarrow>
          map_option (\<lambda>r. (map_option CollisionInfo_swapColliders (fst r), snd r))
            (testAABBCircle h b a ra))"

section \<open>RigidBody\<close>

definition RigidBody_inverseMass :: "RigidBody \<Rightarrow> real" where
  "RigidBody_inverseMass this = (if bodyType this = STATIC then 0 else 1 / mass this)"

definition RigidBody_wakeUp :: "RigidBody \<Rightarrow> RigidBody" where
  "RigidBody_wakeUp this = this\<lparr>isSleeping := False, sleepTimer := 0\<rparr>"

text \<open>\<open>set velocity(value)\<close>: the setter wakes the body when the new velocity is not negligible.\<close>

definition RigidBody_set_velocity :: "Vector2 \<Rightarrow> RigidBody \<Rightarrow> RigidBody" where
  "RigidBody_set_velocity v this =
     (let this1 = this\<lparr>velocity := v\<rparr>
      in if Vector2_lengthSquared v > 0.01 then RigidBody_wakeUp this1 else this1)"

definition RigidBody_updateSleep :: "PhysicsConstants \<Rightarrow> real \<Rightarrow> RigidBody \<Rightarrow> RigidBody" where
  "RigidBody_updateSleep c deltaTime this =
     (let speed = Vector2_length (velocity this);
          angularSpeed = \<bar>angularVelocity this\<bar>
      in if speed < SLEEP_THRESHOLD c \<and> angularSpeed < SLEEP_THRESHOLD c
         then (let this1 = this\<lparr>sleepTimer := sleepTimer this + deltaTime\<rparr>
               in if sleepTimer this1 \<ge> SLEEP_TIME c
                  then this1\<lparr>isSleeping := True, velocity := Vector2_zero, angularVelocity := 0\<rparr>
                  else this1)
         else this\<lparr>sleepTimer := 0\<rparr>)"

text \<open>
  \<open>RigidBody.fixedUpdate(deltaTime)\<close> of the body with handle \<open>b\<close>. The fields of the
  body are written one after the other as in the source (\<open>this1\<close>, \<open>this2\<close>, ...); the
  transform of the owning game object is written in the store.
\<close>

definition RigidBody_fixedUpdate :: "PhysicsConstants \<Rightarrow> real \<Rightarrow> Heap \<Rightarrow> nat \<Rightarrow> Heap" where
  "RigidBody_fixedUpdate c deltaTime h b =
     (let this = bodies h b in
      if bodyType this \<noteq> DYNAMIC then h
      else if isSleeping this then h
      else case gameObject this of
        None \<Rightarrow> h
      | Some g \<Rightarrow>
          let this1 = (if useGravity this
                       then (let gravity = Vector2_multiply (GRAVITY c) (gravityScale this)
                             in this\<lparr>force := Vector2_add (force this) (Vector2_multiply gravity (mass this))\<rparr>)
                       else this);
              this2 = this1\<lparr>acceleration := Vector2_multiply (force this1) (RigidBody_inverseMass this1)\<rparr>;
              this3 = this2\<lparr>velocity := Vector2_add (velocity this2) (Vector2_multiply (acceleration this2) deltaTime)\<rparr>;
              dragFactor = max 0 (1 - drag this3 * deltaTime * 10);
              this4 = this3\<lparr>velocity := Vector2_multiply (velocity this3) dragFactor\<rparr>;
              speedSquared = Vector2_lengthSquared (velocity this4);
              this5 = (if speedSquared > MAX_VELOCITY c * MAX_VELOCITY c
                       then this4\<lparr>velocity := Vector2_multiply (Vector2_normalize (velocity this4)) (MAX_VELOCITY c)\<rparr>
                       else this4);
              displacement = Vector2_multiply (velocity this5) deltaTime;
              h1 = Transform_translate h g displacement;
              angularDragFactor = max 0 (1 - angularDrag this5 * deltaTime * 10);
              this6 = this5\<lparr>angularVelocity := angularVelocity this5 * angularDragFactor\<rparr>;
              h2 = Transform_rotate h1 g (angularVelocity this6 * deltaTime);
              this7 = this6\<lparr>force := Vector2_zero, torque := 0\<rparr>;
              this8 = RigidBody_updateSleep c deltaTime this7
          in h2\<lparr>bodies := (bodies h2)(b := this8)\<rparr>)"

text \<open>
  The steps of the integrator as the specification lists them, on a body and the transform
  of its game object: gravity into the force, acceleration, velocity, drag, the speed
  limit, translation, angular drag and rotation, and the reset of force and torque.
\<close>

definition clamp_speed :: "real \<Rightarrow> Vector2 \<Rightarrow> Vector2" where
  "clamp_speed m v = (if Vector2_length v > m then Vector2_multiply v (m / Vector2_length v) else v)"

definition integrate_steps ::
  "PhysicsConstants \<Rightarrow> real \<Rightarrow> RigidBody \<Rightarrow> Transform \<Rightarrow> RigidBody \<times> Transform" where
  "integrate_steps c dt body t =
     (let f = (if useGravity body
               then Vector2_add (force body)
                      (Vector2_multiply (GRAVITY c) (gravityScale body * mass body))
               else force body);
          a = Vector2_multiply f (RigidBody_inverseMass body);
          v1 = Vector2_add (velocity body) (Vector2_multiply a dt);
          v2 = Vector2_multiply v1 (max 0 (1 - drag body * dt * 10));
          v3 = clamp_speed (MAX_VELOCITY c) v2;
          w = angularVelocity body * max 0 (1 - angularDrag body * dt * 10)
      in (body\<lparr>acceleration := a, velocity := v3, angularVelocity := w,
               force := Vector2_zero, torque := 0\<rparr>,
          t\<lparr>position := Vector2_add (position t) (Vector2_multiply v3 dt),
            rotation := rotation t + w * dt\<rparr>))"

section \<open>CollisionResolver\<close>

text \<open>\<open>collider.gameObject?.getComponent(RigidBody)\<close>.\<close>

definition Collider_getRigidBody :: "Heap \<Rightarrow> nat \<Rightarrow> nat option" where
  "Collider_getRigidBody h c =
     (case gameObject (colliderObjs h c) of None \<Rightarrow> None | Some g \<Rightarrow> rigidBody (objects h g))"

text \<open>\<open>body.velocity = v\<close> on the body with handle \<open>b\<close>, through the setter.\<close>

definition Heap_set_velocity :: "Heap \<Rightarrow> nat \<Rightarrow> Vector2 \<Rightarrow> Heap" where
  "Heap_set_velocity h b v = h\<lparr>bodies := (bodies h)(b := RigidBody_set_velocity v (bodies h b))\<rparr>"

definition resolvePositionalCorrection ::
  "PhysicsConstants \<Rightarrow> Heap \<Rightarrow> CollisionInfo \<Rightarrow> nat \<Rightarrow> nat \<Rightarrow> Heap" where
  "resolvePositionalCorrection c h info bodyA bodyB =
     (let percent = CORRECTION_PERCENT c;
          slop = CORRECTION_SLOP c;
          correctionDepth = max (info_penetration info - slop) 0
      in if correctionDepth \<le> 0 then h
         else
           let totalInverseMass = RigidBody_inverseMass (bodies h bodyA) + RigidBody_inverseMass (bodies h bodyB)
           in if totalInverseMass = 0 then h
              else
                let correction = Vector2_multiply (info_normal info) ((correctionDepth / totalInverseMass) * percent);
                    h1 = (if bodyType (bodies h bodyA) = DYNAMIC
                          then (case gameObject (bodies h bodyA) of
                                  None \<Rightarrow> h
                                | Some g \<Rightarrow>
                                    Transform_set_position h g
                                      (Vector2_subtract (position (transform (objects h g)))
                                         (Vector2_multiply correction (RigidBody_inverseMass (bodies h bodyA)))))
                          else h)
                in if bodyType (bodies h1 bodyB) = DYNAMIC
                   then (case gameObject (bodies h1 bodyB) of
                           None \<Rightarrow> h1
                         | Some g \<Rightarrow>
                             Transform_set_position h1 g
                               (Vector2_add (position (transform (objects h1 g)))
                                  (Vector2_multiply correction (RigidBody_inverseMass (bodies h1 bodyB)))))
                   else h1)"

definition resolveFriction :: "Heap \<Rightarrow> CollisionInfo \<Rightarrow> nat \<Rightarrow> nat \<Rightarrow> real \<Rightarrow> Heap" where
  "resolveFriction h info bodyA bodyB normalImpulseMagnitude =
     (let relativeVel = Vector2_subtract (velocity (bodies h bodyB)) (velocity (bodies h bodyA));
          normalVel = Vector2_multiply (info_normal info) (Vector2_dot relativeVel (info_normal info));
          tangentVel = Vector2_subtract relativeVel normalVel
      in if Vector2_lengthSquared tangentVel < 0.0001 then h
         else
           let tangent = Vector2_normalize tangentVel;
               fr = sqrt (friction (material (colliderObjs h (colliderA info))) *
                          friction (material (colliderObjs h (colliderB info))));
               totalInverseMass = RigidBody_inverseMass (bodies h bodyA) + RigidBody_inverseMass (bodies h bodyB)
           in if totalInverseMass = 0 then h
              else
                let jt = - Vector2_dot relativeVel tangent / totalInverseMass;
                    maxFriction = \<bar>normalImpulseMagnitude\<bar> * fr;
                    frictionImpulseMagnitude = max (- maxFriction) (min jt maxFriction);
                    frictionImpulse = Vector2_multiply tangent frictionImpulseMagnitude;
                    h1 = (if bodyType (bodies h bodyA) = DYNAMIC
                          then Heap_set_velocity h bodyA
                                 (Vector2_subtract (velocity (bodies h bodyA))
                                    (Vector2_multiply frictionImpulse (RigidBody_inverseMass (bodies h bodyA))))
                          else h)
                in if bodyType (bodies h1 bodyB) = DYNAMIC
                   then Heap_set_velocity h1 bodyB
                          (Vector2_add (velocity (bodies h1 bodyB))
                             (Vector2_multiply frictionImpulse (RigidBody_inverseMass (bodies h1 bodyB))))
                   else h1)"

definition resolveImpulse :: "Heap \<Rightarrow> CollisionInfo \<Rightarrow> nat \<Rightarrow> nat \<Rightarrow> Heap" where
  "resolveImpulse h info bodyA bodyB =
     (let relativeVel = Vector2_subtract (velocity (bodies h bodyB)) (velocity (bodies h bodyA));
          velAlongNormal = Vector2_dot relativeVel (info_normal info)
      in if velAlongNormal > 0 then h
         else
           let e = min (restitution (material (colliderObjs h (colliderA info))))
                       (restitution (material (colliderObjs h (colliderB info))));
               totalInverseMass = RigidBody_inverseMass (bodies h bodyA) + RigidBody_inverseMass (bodies h bodyB)
           in if totalInverseMass = 0 then h
              else
                let j = (- (1 + e) * velAlongNormal) / totalInverseMass;
                    impulse = Vector2_multiply (info_normal info) j;
                    h1 = (if bodyType (bodies h bodyA) = DYNAMIC
                          then Heap_set_velocity h bodyA
                                 (Vector2_subtract (velocity (bodies h bodyA))
                                    (Vector2_multiply impulse (RigidBody_inverseMass (bodies h bodyA))))
                          else h);
                    h2 = (if bodyType (bodies h1 bodyB) = DYNAMIC
                          then Heap_set_velocity h1 bodyB
                                 (Vector2_add (velocity (bodies h1 bodyB))
                                    (Vector2_multiply impulse (RigidBody_inverseMass (bodies h1 bodyB))))
                          else h1)
                in resolveFriction h2 info bodyA bodyB j)"

definition CollisionResolver_resolve :: "PhysicsConstants \<Rightarrow> Heap \<Rightarrow> CollisionInfo \<Rightarrow> Heap" where
  "CollisionResolver_resolve c h info =
     (case Collider_getRigidBody h (colliderA info) of
        None \<Rightarrow> h
      | Some bodyA \<Rightarrow>
          (case Collider_getRigidBody h (colliderB info) of
             None \<Rightarrow> h
           | Some bodyB \<Rightarrow>
               if bodyType (bodies h bodyA) = STATIC \<and> bodyType (bodies h bodyB) = STATIC then h
               else resolveImpulse (resolvePositionalCorrection c h info bodyA bodyB) info bodyA bodyB))"

definition CollisionResolver_resolvePositionOnly :: "PhysicsConstants \<Rightarrow> Heap \<Rightarrow> CollisionInfo \<Rightarrow> Heap" where
  "CollisionResolver_resolvePositionOnly c h info =
     (case Collider_getRigidBody h (colliderA info) of
        None \<Rightarrow> h
      | Some bodyA \<Rightarrow>
          (case Collider_getRigidBody h (colliderB info) of
             None \<Rightarrow> h
           | Some bodyB \<Rightarrow>
               if bodyType (bodies h bodyA) = STATIC \<and> bodyType (bodies h bodyB) = STATIC then h
               else resolvePositionalCorrection c h info bodyA bodyB))"

section \<open>Raycast\<close>

record RaycastHit =
  hit_collider :: nat
  hit_point :: Vector2
  hit_normal :: Vector2
  distance :: real

text \<open>
  One axis of the slab method: \<open>org\<close> and \<open>d\<close> are the coordinates of origin and direction on
  the axis, \<open>lo\<close> and \<open>hi\<close> the bounds of the box on it. The source has this block twice,
  for x and for y. \<open>None\<close> is its \<open>return null\<close>.
\<close>

definition raycastAABB_axis :: "real \<Rightarrow> real \<Rightarrow> real \<Rightarrow> real \<Rightarrow> real \<times> real \<Rightarrow> (real \<times> real) option" where
  "raycastAABB_axis org d lo hi tt =
     (if \<bar>d\<bar> < 0.0001
      then (if org < lo \<or> org > hi then None else Some tt)
      else
        let invD = 1.0 / d;
            t1 = (lo - org) * invD;
            t2 = (hi - org) * invD;
            t1' = (if t1 > t2 then t2 else t1);
            t2' = (if t1 > t2 then t1 else t2);
            tmin = max (fst tt) t1';
            tmax = min (snd tt) t2'
        in if tmin > tmax then None else Some (tmin, tmax))"

definition raycastAABB_bounds :: "Vector2 \<Rightarrow> Vector2 \<Rightarrow> nat \<Rightarrow> AABB \<Rightarrow> real \<Rightarrow> RaycastHit option" where
  "raycastAABB_bounds origin direction collider bnds maxDistance =
     (case raycastAABB_axis (x origin) (x direction) (x (aabb_min bnds)) (x (aabb_max bnds)) (0, maxDistance) of
        None \<Rightarrow> None
      | Some tx \<Rightarrow>
          (case raycastAABB_axis (y origin) (y direction) (y (aabb_min bnds)) (y (aabb_max bnds)) tx of
             None \<Rightarrow> None
           | Some ty \<Rightarrow>
               let t = (if fst ty \<ge> 0 then fst ty else snd ty)
               in if t < 0 \<or> t > maxDistance then None
                  else
                    let pt = Vector2_add origin (Vector2_multiply direction t);
                        epsilon = 0.0001;
                        n = (if \<bar>x pt - x (aabb_min bnds)\<bar> < epsilon then Vector2 (- 1) 0
                             else if \<bar>x pt - x (aabb_max bnds)\<bar> < epsilon then Vector2 1 0
                             else if \<bar>y pt - y (aabb_min bnds)\<bar> < epsilon then Vector2 0 (- 1)
                             else Vector2 0 1)
                    in Some \<lparr> hit_collider = collider, hit_point = pt, hit_normal = n, distance = t \<rparr>))"

definition raycastAABB :: "Heap \<Rightarrow> Vector2 \<Rightarrow> Vector2 \<Rightarrow> nat \<Rightarrow> real \<Rightarrow> (RaycastHit option \<times> Heap) option" where
  "raycastAABB h origin direction collider maxDistance =
     map_option (\<lambda>r. (raycastAABB_bounds origin direction collider (fst r) maxDistance, snd r))
       (Collider_getBounds h collider)"

definition raycastCircle_at ::
  "Vector2 \<Rightarrow> Vector2 \<Rightarrow> nat \<Rightarrow> Vector2 \<Rightarrow> real \<Rightarrow> real \<Rightarrow> RaycastHit option" where
  "raycastCircle_at origin direction collider center r maxDistance =
     (let oc = Vector2_subtract origin center;
          a = Vector2_dot direction direction;
          b = 2.0 * Vector2_dot oc direction;
          c = Vector2_dot oc oc - r * r;
          discriminant = b * b - 4 * a * c
      in if discriminant < 0 then None
         else
           let sqrtD = sqrt discriminant;
               t0 = (- b - sqrtD) / (2.0 * a);
               t = (if t0 < 0 then (- b + sqrtD) / (2.0 * a) else t0)
           in if t < 0 \<or> t > maxDistance then None
              else
                let pt = Vector2_add origin (Vector2_multiply direction t);
                    n = Vector2_normalize (Vector2_subtract pt center)
                in Some \<lparr> hit_collider = collider, hit_point = pt, hit_normal = n, distance = t \<rparr>)"

definition raycastCircle ::
  "Heap \<Rightarrow> Vector2 \<Rightarrow> Vector2 \<Rightarrow> nat \<Rightarrow> real \<Rightarrow> real \<Rightarrow> (RaycastHit option \<times> Heap) option" where
  "raycastCircle h origin direction collider r maxDistance =
     map_option (\<lambda>center. (raycastCircle_at origin direction collider center r maxDistance, h))
       (Collider_getWorldPosition h collider)"

definition raycastCollider ::
  "Heap \<Rightarrow> Vector2 \<Rightarrow> Vector2 \<Rightarrow> nat \<Rightarrow> real \<Rightarrow> (RaycastHit option \<times> Heap) option" where
  "raycastCollider h origin direction collider maxDistance =
     (case shape (colliderObjs h collider) of
        BoxCollider s \<Rightarrow> raycastAABB h origin direction collider maxDistance
      | CircleCollider r \<Rightarrow> raycastCircle h origin direction collider r maxDistance)"

section \<open>PhysicsManager\<close>

text \<open>
  The two registries are sets of the source, iterated in insertion order: lists without
  repetition. \<open>collisionPairs\<close> is a \<open>Map\<close>, iterated in insertion order: an association
  list. Its key \<open>"idA-idB"\<close> with the smaller id first is the pair of the two ids.
\<close>

record PhysicsManager =
  rigidbodies :: "nat list"
  colliders :: "nat list"
  gravity :: Vector2
  fixedTimestep :: real
  accumulator :: real
  collisionPairs :: "((nat \<times> nat) \<times> CollisionInfo) list"

definition PhysicsManager_new :: "PhysicsConstants \<Rightarrow> PhysicsManager" where
  "PhysicsManager_new c =
     \<lparr> rigidbodies = [], colliders = [], gravity = GRAVITY c, fixedTimestep = FIXED_TIMESTEP c,
       accumulator = 0, collisionPairs = [] \<rparr>"

definition PhysicsManager_set_gravity :: "Vector2 \<Rightarrow> PhysicsManager \<Rightarrow> PhysicsManager" where
  "PhysicsManager_set_gravity v m = m\<lparr>gravity := v\<rparr>"

definition PhysicsManager_set_fixedTimestep :: "real \<Rightarrow> PhysicsManager \<Rightarrow> PhysicsManager" where
  "PhysicsManager_set_fixedTimestep v m = m\<lparr>fixedTimestep := max 0.001 v\<rparr>"

definition registerRigidbody :: "nat \<Rightarrow> PhysicsManager \<Rightarrow> PhysicsManager" where
  "registerRigidbody body m =
     (if body \<in> set (rigidbodies m) then m else m\<lparr>rigidbodies := rigidbodies m @ [body]\<rparr>)"

definition unregisterRigidbody :: "nat \<Rightarrow> PhysicsManager \<Rightarrow> PhysicsManager" where
  "unregisterRigidbody body m = m\<lparr>rigidbodies := removeAll body (rigidbodies m)\<rparr>"

definition registerCollider :: "nat \<Rightarrow> PhysicsManager \<Rightarrow> PhysicsManager" where
  "registerCollider collider m =
     (if collider \<in> set (colliders m) then m else m\<lparr>colliders := colliders m @ [collider]\<rparr>)"

definition unregisterCollider :: "nat \<Rightarrow> PhysicsManager \<Rightarrow> PhysicsManager" where
  "unregisterCollider collider m = m\<lparr>colliders := removeAll collider (colliders m)\<rparr>"

text \<open>A \<open>for ... of\<close> loop whose body can fail to return: it stops at the first \<open>None\<close>.\<close>

fun forEach :: "('s \<Rightarrow> 'a \<Rightarrow> 's option) \<Rightarrow> 's \<Rightarrow> 'a list \<Rightarrow> 's option" where
  "forEach f s [] = Some s"
| "forEach f s (a # as) = Option.bind (f s a) (\<lambda>s'. forEach f s' as)"

definition aabbOverlap :: "AABB \<Rightarrow> AABB \<Rightarrow> bool" where
  "aabbOverlap a b =
     (\<not> (x (aabb_max a) < x (aabb_min b) \<or> x (aabb_min a) > x (aabb_max b) \<or>
         y (aabb_max a) < y (aabb_min b) \<or> y (aabb_min a) > y (aabb_max b)))"

definition collisionPairKey :: "nat \<Rightarrow> nat \<Rightarrow> nat \<times> nat" where
  "collisionPairKey a b = (if a < b then (a, b) else (b, a))"

subsection \<open>Events\<close>

text \<open>
  The callbacks of game objects are code of the game. A call of a callback is an event of
  the trace that a step returns: the game object called, and the argument.
  \<open>contact\<close> is \<open>info.contacts[0]\<close>, which is \<open>undefined\<close> (\<open>None\<close>) on an empty array.
\<close>

record CollisionEvent =
  other :: nat
  contact :: "ContactPoint option"
  event_normal :: Vector2
  event_penetration :: real

datatype Event =
    OnCollisionEnter nat CollisionEvent
  | OnCollisionStay nat CollisionEvent
  | OnCollisionExit nat nat
  | OnTriggerEnter nat nat
  | OnTriggerStay nat nat
  | OnTriggerExit nat nat

fun is_trigger_event :: "Event \<Rightarrow> bool" where
  "is_trigger_event (OnTriggerEnter g c) = True"
| "is_trigger_event (OnTriggerStay g c) = True"
| "is_trigger_event (OnTriggerExit g c) = True"
| "is_trigger_event e = False"

text \<open>
  The enter and stay events of one side of a pair: the block \<open>if (a.gameObject) { ... }\<close>
  of \<open>dispatchCollisionEvents\<close>, which the source has once for A and once for B.
\<close>

definition dispatch_side :: "Heap \<Rightarrow> nat \<Rightarrow> nat \<Rightarrow> bool \<Rightarrow> CollisionEvent \<Rightarrow> Event list" where
  "dispatch_side h this otherCollider trig collisionEvent =
     (case gameObject (colliderObjs h this) of
        None \<Rightarrow> []
      | Some g \<Rightarrow>
          if Collider_isCollisionEnter h this otherCollider
          then (if trig then [OnTriggerEnter g otherCollider] else [OnCollisionEnter g collisionEvent])
          else if Collider_isCollisionStay h this otherCollider
          then (if trig then [OnTriggerStay g otherCollider] else [OnCollisionStay g collisionEvent])
          else [])"

definition dispatch_pair :: "Heap \<Rightarrow> CollisionInfo \<Rightarrow> Event list" where
  "dispatch_pair h info =
     (let a = colliderA info;
          b = colliderB info;
          trig = (isTrigger (colliderObjs h a) \<or> isTrigger (colliderObjs h b));
          c0 = (case contacts info of [] \<Rightarrow> None | cp # cps \<Rightarrow> Some cp)
      in dispatch_side h a b trig
           \<lparr> other = b, contact = c0, event_normal = info_normal info,
             event_penetration = info_penetration info \<rparr> @
         dispatch_side h b a trig
           \<lparr> other = a, contact = c0, event_normal = Vector2_multiply (info_normal info) (- 1),
             event_penetration = info_penetration info \<rparr>)"

definition dispatch_exit :: "Heap \<Rightarrow> nat \<Rightarrow> nat \<Rightarrow> Event list" where
  "dispatch_exit h collider otherCollider =
     (if collider = otherCollider then []
      else if Collider_isCollisionExit h collider otherCollider
      then (case gameObject (colliderObjs h collider) of
              None \<Rightarrow> []
            | Some g \<Rightarrow>
                if isTrigger (colliderObjs h collider) \<or> isTrigger (colliderObjs h otherCollider)
                then [OnTriggerExit g otherCollider]
                else [OnCollisionExit g otherCollider])
      else [])"

definition dispatchCollisionEvents ::
  "PhysicsManager \<Rightarrow> Heap \<Rightarrow> ((nat \<times> nat) \<times> CollisionInfo) list \<Rightarrow> Event list" where
  "dispatchCollisionEvents m h current =
     (let allColliders = filter (\<lambda>c. enabled (colliderObjs h c)) (colliders m)
      in concat (map (\<lambda>kv. dispatch_pair h (snd kv)) current) @
         concat (map (\<lambda>collider. concat (map (dispatch_exit h collider) allColliders)) allColliders))"

subsection \<open>The fixed step\<close>

definition integrateBodies :: "PhysicsConstants \<Rightarrow> real \<Rightarrow> PhysicsManager \<Rightarrow> Heap \<Rightarrow> Heap" where
  "integrateBodies c dt m h =
     foldl (\<lambda>h body.
              if enabled (bodies h body) \<and> bodyType (bodies h body) = DYNAMIC \<and>
                 \<not> isSleeping (bodies h body)
              then RigidBody_fixedUpdate c dt h body else h)
       h (rigidbodies m)"

definition updateBoundsAll :: "PhysicsManager \<Rightarrow> Heap \<Rightarrow> Heap option" where
  "updateBoundsAll m h =
     forEach (\<lambda>h collider.
                if enabled (colliderObjs h collider) then Collider_updateBounds h collider else Some h)
       h (colliders m)"

definition updateCollisionStates :: "PhysicsManager \<Rightarrow> Heap \<Rightarrow> Heap" where
  "updateCollisionStates m h =
     foldl (\<lambda>h collider.
              if enabled (colliderObjs h collider) then Collider_updateCollisionState h collider else h)
       h (colliders m)"

text \<open>The pairs \<open>(colliderArray[i], colliderArray[j])\<close> with \<open>i < j\<close>, in the order of the two loops.\<close>

fun potentialPairs :: "nat list \<Rightarrow> (nat \<times> nat) list" where
  "potentialPairs [] = []"
| "potentialPairs (a # as) = map (Pair a) as @ potentialPairs as"

text \<open>The body of the narrow-phase loop, on the map of collisions and the store.\<close>

definition narrowPhase_pair ::
  "((nat \<times> nat) \<times> CollisionInfo) list \<times> Heap \<Rightarrow> nat \<times> nat \<Rightarrow>
   (((nat \<times> nat) \<times> CollisionInfo) list \<times> Heap) option" where
  "narrowPhase_pair s p =
     (let a = fst p; b = snd p in
      do {
        ra \<leftarrow> Collider_getBounds (snd s) a;
        rb \<leftarrow> Collider_getBounds (snd ra) b;
        if \<not> aabbOverlap (fst ra) (fst rb) then Some (fst s, snd rb)
        else do {
          r \<leftarrow> detect (snd rb) a b;
          (case fst r of
             None \<Rightarrow> Some (fst s, snd r)
           | Some info \<Rightarrow>
               Some (AList.update (collisionPairKey a b) info (fst s),
                     Collider_addCollision (Collider_addCollision (snd r) a b) b a))
        }
      })"

text \<open>The body of the position-solver loop over the collisions, and that of the velocity solver.\<close>

definition positionSolve_pair :: "PhysicsConstants \<Rightarrow> Heap \<Rightarrow> CollisionInfo \<Rightarrow> Heap option" where
  "positionSolve_pair c h info =
     (let a = colliderA info; b = colliderB info in
      if \<not> isTrigger (colliderObjs h a) \<and> \<not> isTrigger (colliderObjs h b)
      then do {
        r \<leftarrow> detect h a b;
        (case fst r of
           None \<Rightarrow> Some (snd r)
         | Some updatedInfo \<Rightarrow> Some (CollisionResolver_resolvePositionOnly c (snd r) updatedInfo))
      }
      else Some h)"

definition velocitySolve_pair :: "PhysicsConstants \<Rightarrow> Heap \<Rightarrow> CollisionInfo \<Rightarrow> Heap option" where
  "velocitySolve_pair c h info =
     (let a = colliderA info; b = colliderB info in
      if \<not> isTrigger (colliderObjs h a) \<and> \<not> isTrigger (colliderObjs h b)
      then do {
        r \<leftarrow> detect h a b;
        (case fst r of
           None \<Rightarrow> Some (snd r)
         | Some finalInfo \<Rightarrow> Some (CollisionResolver_resolve c (snd r) finalInfo))
      }
      else Some h)"

definition positionSolver ::
  "PhysicsConstants \<Rightarrow> PhysicsManager \<Rightarrow> ((nat \<times> nat) \<times> CollisionInfo) list \<Rightarrow> Heap \<Rightarrow> Heap option" where
  "positionSolver c m current h =
     forEach (\<lambda>h iter. do {
                h1 \<leftarrow> updateBoundsAll m h;
                forEach (\<lambda>h kv. positionSolve_pair c h (snd kv)) h1 current
              })
       h [0 ..< POSITION_ITERATIONS c]"

definition velocitySolver ::
  "PhysicsConstants \<Rightarrow> ((nat \<times> nat) \<times> CollisionInfo) list \<Rightarrow> Heap \<Rightarrow> Heap option" where
  "velocitySolver c current h =
     forEach (\<lambda>h kv. velocitySolve_pair c h (snd kv)) h current"

text \<open>
  \<open>PhysicsManager.fixedUpdate(dt)\<close>: the manager and the store after the step, and the
  callbacks it made.
\<close>

definition PhysicsManager_fixedUpdate ::
  "PhysicsConstants \<Rightarrow> real \<Rightarrow> PhysicsManager \<Rightarrow> Heap \<Rightarrow> (PhysicsManager \<times> Heap \<times> Event list) option" where
  "PhysicsManager_fixedUpdate c dt m h =
     do {
       h2 \<leftarrow> updateBoundsAll m (integrateBodies c dt m h);
       let h3 = updateCollisionStates m h2;
       let colliderArray = filter (\<lambda>collider. enabled (colliderObjs h3 collider)) (colliders m);
       s \<leftarrow> forEach narrowPhase_pair ([], h3) (potentialPairs colliderArray);
       let current = fst s;
       h6 \<leftarrow> positionSolver c m current (snd s);
       h7 \<leftarrow> velocitySolver c current h6;
       Some (m\<lparr>collisionPairs := current\<rparr>, h7,
             dispatchCollisionEvents m h7 current)
     }"

text \<open>
  The loop of \<open>update\<close>: one fixed step for each whole timestep in the accumulator. It does
  not return when the timestep and the accumulator are both 0.
\<close>

partial_function (option) update_loop ::
  "PhysicsConstants \<Rightarrow> PhysicsManager \<Rightarrow> Heap \<Rightarrow> Event list \<Rightarrow>
   (PhysicsManager \<times> Heap \<times> Event list) option" where
  "update_loop c m h evs =
     (if accumulator m \<ge> fixedTimestep m
      then Option.bind (PhysicsManager_fixedUpdate c (fixedTimestep m) m h) (\<lambda>r.
             update_loop c ((fst r)\<lparr>accumulator := accumulator (fst r) - fixedTimestep (fst r)\<rparr>)
               (fst (snd r)) (evs @ snd (snd r)))
      else Some (m, h, evs))"

definition PhysicsManager_update ::
  "PhysicsConstants \<Rightarrow> real \<Rightarrow> PhysicsManager \<Rightarrow> Heap \<Rightarrow> (PhysicsManager \<times> Heap \<times> Event list) option" where
  "PhysicsManager_update c deltaTime m h =
     (let m1 = m\<lparr>accumulator := accumulator m + deltaTime\<rparr>;
          maxAccumulator = fixedTimestep m1 * 5;
          m2 = (if accumulator m1 > maxAccumulator then m1\<lparr>accumulator := maxAccumulator\<rparr> else m1)
      in update_loop c m2 h [])"

subsection \<open>Ray queries\<close>

text \<open>\<open>raycast(origin, direction, maxDistance = 1000)\<close>; the loop keeps the closest hit so far.\<close>

definition raycast_step ::
  "Vector2 \<Rightarrow> Vector2 \<Rightarrow> real \<Rightarrow> RaycastHit option \<times> real \<times> Heap \<Rightarrow> nat \<Rightarrow>
   (RaycastHit option \<times> real \<times> Heap) option" where
  "raycast_step origin dir maxDistance s collider =
     (let closestHit = fst s; closestDistance = fst (snd s); h = snd (snd s) in
      if \<not> enabled (colliderObjs h collider) then Some s
      else do {
        r \<leftarrow> raycastCollider h origin dir collider maxDistance;
        (case fst r of
           None \<Rightarrow> Some (closestHit, closestDistance, snd r)
         | Some hit \<Rightarrow>
             if distance hit < closestDistance then Some (Some hit, distance hit, snd r)
             else Some (closestHit, closestDistance, snd r))
      })"

definition PhysicsManager_raycast ::
  "PhysicsManager \<Rightarrow> Heap \<Rightarrow> Vector2 \<Rightarrow> Vector2 \<Rightarrow> real option \<Rightarrow> (RaycastHit option \<times> Heap) option" where
  "PhysicsManager_raycast m h origin direction maxDistanceArg =
     (let maxDistance = (case maxDistanceArg of None \<Rightarrow> 1000 | Some d \<Rightarrow> d);
          dir = Vector2_normalize direction
      in map_option (\<lambda>s. (fst s, snd (snd s)))
           (forEach (raycast_step origin dir maxDistance) (None, maxDistance, h) (colliders m)))"

definition raycastAll_step ::
  "Vector2 \<Rightarrow> Vector2 \<Rightarrow> real \<Rightarrow> RaycastHit list \<times> Heap \<Rightarrow> nat \<Rightarrow> (RaycastHit list \<times> Heap) option" where
  "raycastAll_step origin dir maxDistance s collider =
     (if \<not> enabled (colliderObjs (snd s) collider) then Some s
      else do {
        r \<leftarrow> raycastCollider (snd s) origin dir collider maxDistance;
        (case fst r of
           None \<Rightarrow> Some (fst s, snd r)
         | Some hit \<Rightarrow> Some (fst s @ [hit], snd r))
      })"

definition PhysicsManager_raycastAll ::
  "PhysicsManager \<Rightarrow> Heap \<Rightarrow> Vector2 \<Rightarrow> Vector2 \<Rightarrow> real option \<Rightarrow> (RaycastHit list \<times> Heap) option" where
  "PhysicsManager_raycastAll m h origin direction maxDistanceArg =
     (let maxDistance = (case maxDistanceArg of None \<Rightarrow> 1000 | Some d \<Rightarrow> d);
          dir = Vector2_normalize direction
      in map_option (\<lambda>s. (sort_key distance (fst s), snd s))
           (forEach (raycastAll_step origin dir maxDistance) ([], h) (colliders m)))"

text \<open>
  The frame loop of the engine calls \<open>update\<close> once per frame with the time since the last
  frame: a run over the list of these times, with the callbacks made in order.
\<close>

fun PhysicsManager_run ::
  "PhysicsConstants \<Rightarrow> real list \<Rightarrow> PhysicsManager \<Rightarrow> Heap \<Rightarrow>
   (PhysicsManager \<times> Heap \<times> Event list) option" where
  "PhysicsManager_run c [] m h = Some (m, h, [])"
| "PhysicsManager_run c (deltaTime # rest) m h =
     Option.bind (PhysicsManager_update c deltaTime m h) (\<lambda>r.
     Option.bind (PhysicsManager_run c rest (fst r) (fst (snd r))) (\<lambda>r'.
       Some (fst r', fst (snd r'), snd (snd r) @ snd (snd r'))))"

text \<open>
  The states of the manager that calls of \<open>update\<close> produce from a new manager, with any
  registrations, any assignment of gravity and any changes the game makes to its objects in
  between. The timestep is as the manager was built with it, from a positive constant.
\<close>

inductive reachable :: "PhysicsManager \<Rightarrow> Heap \<Rightarrow> bool" where
  initial: "0 < FIXED_TIMESTEP c \<Longrightarrow> reachable (PhysicsManager_new c) h"
| registerRigidbody: "reachable m h \<Longrightarrow> reachable (registerRigidbody body m) h"
| unregisterRigidbody: "reachable m h \<Longrightarrow> reachable (unregisterRigidbody body m) h"
| registerCollider: "reachable m h \<Longrightarrow> reachable (registerCollider collider m) h"
| unregisterCollider: "reachable m h \<Longrightarrow> reachable (unregisterCollider collider m) h"
| set_gravity: "reachable m h \<Longrightarrow> reachable (PhysicsManager_set_gravity v m) h"
| objects: "reachable m h \<Longrightarrow> reachable m h'"
| update: "reachable m h \<Longrightarrow> PhysicsManager_update c deltaTime m h = Some (m', h', evs) \<Longrightarrow>
           reachable m' h'"

text \<open>
  A pair with a trigger collider, and two stores whose colliders have the same trigger flags.
\<close>
definition trigger_pair :: "Heap \<Rightarrow> CollisionInfo \<Rightarrow> bool" where
  "trigger_pair h info =
     (isTrigger (colliderObjs h (colliderA info)) \<or> isTrigger (colliderObjs h (colliderB info)))"

definition same_triggers :: "Heap \<Rightarrow> Heap \<Rightarrow> bool" where
  "same_triggers h h' = ((\<lambda>k. isTrigger (colliderObjs h' k)) = (\<lambda>k. isTrigger (colliderObjs h k)))"

text \<open>
  One impulse and friction pass on a pair, as the specification words step (7) of a fixed
  step and the resolver: the pair is detected again, and when there is a manifold and the
  two colliders have rigid bodies that are not both static, the positional correction of
  \<open>resolve\<close> is followed by the impulse, which ends with friction.
\<close>

definition impulse_friction_pass :: "PhysicsConstants \<Rightarrow> Heap \<Rightarrow> CollisionInfo \<Rightarrow> Heap option" where
  "impulse_friction_pass c h info =
     Option.bind (detect h (colliderA info) (colliderB info)) (\<lambda>r.
       case fst r of
         None \<Rightarrow> Some (snd r)
       | Some finalInfo \<Rightarrow>
           (case Collider_getRigidBody (snd r) (colliderA finalInfo) of
              None \<Rightarrow> Some (snd r)
            | Some bodyA \<Rightarrow>
                (case Collider_getRigidBody (snd r) (colliderB finalInfo) of
                   None \<Rightarrow> Some (snd r)
                 | Some bodyB \<Rightarrow>
                     if bodyType (bodies (snd r) bodyA) = STATIC \<and>
                        bodyType (bodies (snd r) bodyB) = STATIC
                     then Some (snd r)
                     else Some (resolveImpulse
                                  (resolvePositionalCorrection c (snd r) finalInfo bodyA bodyB)
                                  finalInfo bodyA bodyB))))"

section \<open>Fresh objects\<close>

text \<open>The objects as their constructors and field initialisers build them.\<close>

definition Transform_new :: Transform where
  "Transform_new = \<lparr> position = Vector2_zero, rotation = 0, scale = Vector2_one, parent = None \<rparr>"

definition GameObject_new :: GameObject where
  "GameObject_new = \<lparr> transform = Transform_new, rigidBody = None \<rparr>"

definition RigidBody_new :: RigidBody where
  "RigidBody_new =
     \<lparr> gameObject = None, enabled = True, bodyType = DYNAMIC, mass = 1.0,
       velocity = Vector2_zero, angularVelocity = 0, acceleration = Vector2_zero,
       force = Vector2_zero, torque = 0, useGravity = True, drag = 0.1, angularDrag = 0.05,
       gravityScale = 1.0, isSleeping = False, sleepTimer = 0 \<rparr>"

definition Collider_new :: "Shape \<Rightarrow> Collider" where
  "Collider_new s =
     \<lparr> gameObject = None, enabled = True, isTrigger = False, material = PhysicsMaterial_default,
       offset = Vector2_zero, bounds = None, currentCollisions = {}, previousCollisions = {},
       shape = s \<rparr>"

definition BoxCollider_new :: Collider where
  "BoxCollider_new = Collider_new (BoxCollider (Vector2 50 50))"

definition CircleCollider_new :: Collider where
  "CircleCollider_new = Collider_new (CircleCollider 25)"

definition Heap_new :: Heap where
  "Heap_new = \<lparr> objects = (\<lambda>g. GameObject_new), bodies = (\<lambda>b. RigidBody_new),
                colliderObjs = (\<lambda>c. BoxCollider_new) \<rparr>"

text \<open>
  The midpoint of the rectangle in which two boxes overlap, as the specification words
  the contact point of two boxes.
\<close>

definition overlap_midpoint :: "AABB \<Rightarrow> AABB \<Rightarrow> Vector2" where
  "overlap_midpoint boundsA boundsB =
     Vector2 ((max (x (aabb_min boundsA)) (x (aabb_min boundsB)) +
               min (x (aabb_max boundsA)) (x (aabb_max boundsB))) / 2)
             ((max (y (aabb_min boundsA)) (y (aabb_min boundsB)) +
               min (y (aabb_max boundsA)) (y (aabb_max boundsB))) / 2)"

text \<open>Two circle colliders without game objects, at (0, 0) and (3, 4).\<close>

definition circles_heap :: Heap where
  "circles_heap =
     Heap_new\<lparr>colliderObjs := (colliderObjs Heap_new)
       (1 := Collider_new (CircleCollider 3),
        2 := (Collider_new (CircleCollider 4))\<lparr>offset := Vector2 3 4\<rparr>)\<rparr>"

text \<open>A store with one resting body (handle 2, on game object 2) that is about to fall asleep.\<close>

definition drowsy_heap :: Heap where
  "drowsy_heap =
     Heap_new\<lparr>bodies := (bodies Heap_new)
       (2 := RigidBody_new\<lparr>gameObject := Some 2, useGravity := False, drag := 0,
                            velocity := Vector2 (3 / 10) 0, sleepTimer := 49 / 100\<rparr>)\<rparr>"

text \<open>A store with one fresh body (handle 2, on game object 2) under gravity.\<close>

definition falling_heap :: Heap where
  "falling_heap = Heap_new\<lparr>bodies := (bodies Heap_new)(2 := RigidBody_new\<lparr>gameObject := Some 2\<rparr>)\<rparr>"

text \<open>
  A box collider (id 2) of size 4 x 4 centred at (10, 0), without a game object, registered
  with a fresh manager.
\<close>

definition ray_heap :: Heap where
  "ray_heap =
     Heap_new\<lparr>colliderObjs := (colliderObjs Heap_new)
       (2 := (Collider_new (BoxCollider (Vector2 4 4)))\<lparr>offset := Vector2 10 0\<rparr>)\<rparr>"

definition ray_manager :: PhysicsManager where
  "ray_manager = registerCollider 2 (PhysicsManager_new PhysicsConstants_default)"

text \<open>
  A small world: a trigger zone (collider 2, game object 2, no rigid body) around the
  origin, a box (collider 3, dynamic body 3, game object 3) that moves without gravity or
  drag, and a floor (collider 4, static body 4, game object 4). The parameters are the
  position and the velocity of the box, the position of the box at which the bounds of the
  three colliders were last cached (\<open>None\<close> when there are no cached bounds), and whether the
  contacts of this step are recorded.
\<close>

definition drop_collider :: "nat \<Rightarrow> bool \<Rightarrow> Vector2 \<Rightarrow> AABB option \<Rightarrow> nat set \<Rightarrow> Collider" where
  "drop_collider g trig sz b cur =
     \<lparr> gameObject = Some g, enabled = True, isTrigger = trig, material = PhysicsMaterial_default,
       offset = Vector2_zero, bounds = b, currentCollisions = cur, previousCollisions = {},
       shape = BoxCollider sz \<rparr>"

definition drop_world :: "Vector2 \<Rightarrow> Vector2 \<Rightarrow> Vector2 option \<Rightarrow> bool \<Rightarrow> Heap" where
  "drop_world pos3 vel3 cached touching =
     \<lparr> objects = (\<lambda>g. GameObject_new)
         (3 := \<lparr> transform = Transform_new\<lparr>position := pos3\<rparr>, rigidBody = Some 3 \<rparr>,
          4 := \<lparr> transform = Transform_new\<lparr>position := Vector2 0 (103 / 50)\<rparr>, rigidBody = Some 4 \<rparr>),
       bodies = (\<lambda>b. RigidBody_new)
         (3 := RigidBody_new\<lparr>gameObject := Some 3, useGravity := False, drag := 0, velocity := vel3\<rparr>,
          4 := RigidBody_new\<lparr>gameObject := Some 4, bodyType := STATIC\<rparr>),
       colliderObjs = (\<lambda>k. BoxCollider_new)
         (2 := drop_collider 2 True (Vector2 2 2)
                 (map_option (\<lambda>q. \<lparr> aabb_min = Vector2 (- 1) (- 1), aabb_max = Vector2 1 1 \<rparr>) cached)
                 (if touching then {3} else {}),
          3 := drop_collider 3 False (Vector2 2 2)
                 (map_option (\<lambda>q. \<lparr> aabb_min = Vector2 (x q - 1) (y q - 1),
                                     aabb_max = Vector2 (x q + 1) (y q + 1) \<rparr>) cached)
                 (if touching then {2, 4} else {}),
          4 := drop_collider 4 False (Vector2 20 2)
                 (map_option (\<lambda>q. \<lparr> aabb_min = Vector2 (- 10) (53 / 50),
                                     aabb_max = Vector2 10 (153 / 50) \<rparr>) cached)
                 (if touching then {3} else {})) \<rparr>"

definition drop_manager :: PhysicsManager where
  "drop_manager =
     registerRigidbody 4 (registerRigidbody 3
       (registerCollider 4 (registerCollider 3 (registerCollider 2
          (PhysicsManager_new PhysicsConstants_default)))))"

text \<open>
  The manifolds of the trigger zone with the box, and of the box with the floor when the
  bounds of the box were cached at (0, k).
\<close>

definition drop_info23 :: CollisionInfo where
  "drop_info23 =
     \<lparr> colliderA = 2, colliderB = 3,
       contacts = [\<lparr> point = Vector2 0 0, normal = Vector2 0 1, penetration = 9 / 5 \<rparr>],
       info_normal = Vector2 0 1, info_penetration = 9 / 5 \<rparr>"

definition drop_info34 :: "real \<Rightarrow> CollisionInfo" where
  "drop_info34 k =
     \<lparr> colliderA = 3, colliderB = 4,
       contacts = [\<lparr> point = Vector2 0 0, normal = Vector2 0 1, penetration = k - 3 / 50 \<rparr>],
       info_normal = Vector2 0 1, info_penetration = k - 3 / 50 \<rparr>"

text \<open>The collisions of the step in which the box reaches (0, 1/5).\<close>

definition drop_current :: "((nat \<times> nat) \<times> CollisionInfo) list" where
  "drop_current = [((2, 3), drop_info23), ((3, 4), drop_info34 (1 / 5))]"

text \<open>The callbacks of that step, in order.\<close>

definition drop_events :: "Event list" where
  "drop_events =
     [OnTriggerEnter 2 3, OnTriggerEnter 3 2,
      OnCollisionEnter 3
        \<lparr> other = 4,
          contact = Some \<lparr> point = Vector2 0 0, normal = Vector2 0 1, penetration = 7 / 50 \<rparr>,
          event_normal = Vector2 0 1, event_penetration = 7 / 50 \<rparr>,
      OnCollisionEnter 4
        \<lparr> other = 3,
          contact = Some \<lparr> point = Vector2 0 0, normal = Vector2 0 1, penetration = 7 / 50 \<rparr>,
          event_normal = Vector2 0 (- 1), event_penetration = 7 / 50 \<rparr>]"

section \<open>Facts about vectors\<close>

lemma Vector2_normalize_divide:
  "Vector2_length u \<noteq> 0 \<Longrightarrow>
   Vector2_divide u (Vector2_length u) = Inr (Vector2 (x u / Vector2_length u) (y u / Vector2_length u))"
  by (simp add: Vector2_divide_def)

lemma Vector2_length_nonneg: "0 \<le> Vector2_length u"
  by (simp add: Vector2_length_def)

lemma Vector2_length_sq: "Vector2_length u * Vector2_length u = Vector2_lengthSquared u"
  by (simp add: Vector2_length_def Vector2_lengthSquared_def)

lemma Vector2_length_sqrt: "Vector2_length u = sqrt (Vector2_lengthSquared u)"
  by (simp add: Vector2_length_def Vector2_lengthSquared_def)

lemma Vector2_normalize_unit:
  assumes "Vector2_length u \<noteq> 0"
  shows "Vector2_length (Vector2_normalize u) = 1"
proof -
  let ?l = "Vector2_length u"
  have pos: "0 < ?l" using assms Vector2_length_nonneg [of u] by simp
  have n: "Vector2_normalize u = Vector2 (x u / ?l) (y u / ?l)"
    using assms by (simp add: Vector2_normalize_def Vector2_divide_def Let_def)
  have "(x u / ?l) * (x u / ?l) + (y u / ?l) * (y u / ?l) = (x u * x u + y u * y u) / (?l * ?l)"
    by (simp add: add_divide_distrib)
  also have "\<dots> = (?l * ?l) / (?l * ?l)"
    by (simp only: Vector2_length_sq Vector2_lengthSquared_def)
  also have "\<dots> = 1"
    using pos by simp
  finally show ?thesis
    by (simp add: n Vector2_length_def)
qed

section \<open>Materials\<close>

lemma PhysicsMaterial_set_friction_range:
  "0 \<le> friction (PhysicsMaterial_set_friction v m) \<and> friction (PhysicsMaterial_set_friction v m) \<le> 1"
  by (simp add: PhysicsMaterial_set_friction_def)

lemma PhysicsMaterial_set_restitution_range:
  "0 \<le> restitution (PhysicsMaterial_set_restitution v m) \<and>
   restitution (PhysicsMaterial_set_restitution v m) \<le> 1"
  by (simp add: PhysicsMaterial_set_restitution_def)

section \<open>Materials: constructor and setters\<close>

text \<open>
  C6. Every write of friction or restitution, the constructor's included, is said to clamp
  into [0, 1]. The setters do (the two lemmas above); the constructor stores its arguments
  unclamped: \<open>new PhysicsMaterial(2, -1)\<close> has friction 2 and restitution -1.
\<close>

theorem PhysicsMaterial_new_unclamped:
  "PhysicsMaterial_new (Some 2) (Some (- 1)) None = \<lparr> friction = 2, restitution = - 1, density = 1 \<rparr>"
  by (simp add: PhysicsMaterial_new_def)

section \<open>Circle against circle\<close>

lemma sqrt_sq_le_iff: "0 \<le> r \<Longrightarrow> 0 \<le> d \<Longrightarrow> (d \<ge> r * r) = (sqrt d \<ge> r)"
proof -
  assume r: "0 \<le> r" and d: "0 \<le> d"
  have "(r * r \<le> d) = (sqrt (r * r) \<le> sqrt d)" by (simp only: real_sqrt_le_iff)
  also have "sqrt (r * r) = r" using r by simp
  finally show ?thesis .
qed

lemma Vector2_lengthSquared_nonneg: "0 \<le> Vector2_lengthSquared u"
  by (simp add: Vector2_lengthSquared_def)

lemma sqrt_25: "sqrt 25 = 5"
  by (rule real_sqrt_unique) simp_all

lemma len34: "Vector2_length (Vector2 3 4) = 5"
  by (simp add: Vector2_length_def sqrt_25)

lemma norm34: "Vector2_normalize (Vector2 3 4) = Vector2 (3/5) (4/5)"
  by (simp add: Vector2_normalize_def len34 Vector2_divide_def)

lemma sqrt_small: "sqrt (1 / 400000000) = 1 / 20000"
  by (rule real_sqrt_unique) (simp_all add: power2_eq_square)

lemma len_small: "Vector2_length (Vector2 0 (1 / 20000)) = 1 / 20000"
  by (simp add: Vector2_length_def sqrt_small)


text \<open>
  C2, as the code has it. For two circles with radii the radius setter allows (at least
  0.1): there is no result when the distance of the centres is at least the sum of the
  radii; otherwise the penetration is the sum of the radii minus the distance, the normal
  is the normalised vector from the centre of A to the centre of B when the distance is
  above 0.0001 and (1, 0) when it is at most 0.0001, and the contact point is the centre
  of A plus the normal times the radius of A.
\<close>

theorem testCircleCircle_manifold:
  assumes "0.1 \<le> radiusA" and "0.1 \<le> radiusB"
  shows "testCircleCircle_at a b posA radiusA posB radiusB =
     (let delta = Vector2_subtract posB posA;
          d = Vector2_length delta;
          n = (if d \<le> 0.0001 then Vector2 1 0 else Vector2_normalize delta)
      in if d \<ge> radiusA + radiusB then None
         else Some \<lparr> colliderA = a, colliderB = b,
                     contacts = [\<lparr> point = Vector2_add posA (Vector2_multiply n radiusA),
                                   normal = n, penetration = radiusA + radiusB - d \<rparr>],
                     info_normal = n, info_penetration = radiusA + radiusB - d \<rparr>)"
proof -
  have r: "0 \<le> radiusA + radiusB" using assms by simp
  have "(Vector2_lengthSquared (Vector2_subtract posB posA) \<ge> (radiusA + radiusB) * (radiusA + radiusB))
        = (Vector2_length (Vector2_subtract posB posA) \<ge> radiusA + radiusB)"
    using sqrt_sq_le_iff [OF r Vector2_lengthSquared_nonneg] by (simp add: Vector2_length_sqrt)
  then show ?thesis
    by (simp add: testCircleCircle_at_def Let_def Vector2_length_sqrt not_less)
qed


theorem testCircleCircle_manifold_witness:
  "(0.1::real) \<le> 3 \<and> (0.1::real) \<le> 4 \<and>
   testCircleCircle_at 1 2 (Vector2 0 0) 3 (Vector2 3 4) 4 =
     Some \<lparr> colliderA = 1, colliderB = 2,
            contacts = [\<lparr> point = Vector2 (9/5) (12/5), normal = Vector2 (3/5) (4/5), penetration = 2 \<rparr>],
            info_normal = Vector2 (3/5) (4/5), info_penetration = 2 \<rparr>"
  using testCircleCircle_manifold [of 3 4 1 2 "Vector2 0 0" "Vector2 3 4"]
  by (simp add: Let_def Vector2_subtract_def len34 norm34 Vector2_add_def Vector2_multiply_def)


text \<open>
  The claim as stated has the fallback normal only for coinciding centres. With the
  centres (0, 0) and (0, 1/20000), which differ, the normal is (1, 0) and not the
  normalised difference (0, 1).
\<close>

theorem testCircleCircle_fallback_counterexample:
  "Vector2 0 0 \<noteq> Vector2 0 (1 / 20000) \<and>
   map_option info_normal (testCircleCircle_at 1 2 (Vector2 0 0) 1 (Vector2 0 (1 / 20000)) 1)
     = Some (Vector2 1 0) \<and>
   Vector2_normalize (Vector2_subtract (Vector2 0 (1 / 20000)) (Vector2 0 0)) = Vector2 0 1"
  by (simp add: testCircleCircle_at_def Let_def Vector2_subtract_def Vector2_lengthSquared_def
      Vector2_normalize_def len_small Vector2_divide_def sqrt_small)


section \<open>Unit normals and non-negative penetration\<close>

lemma testAABB_bounds_unit:
  assumes "testAABB_bounds a b boundsA boundsB = Some info"
  shows "Vector2_length (info_normal info) = 1 \<and> 0 \<le> info_penetration info"
proof -
  have sep: "\<not> (x (aabb_max boundsA) < x (aabb_min boundsB) \<or>
         x (aabb_min boundsA) > x (aabb_max boundsB) \<or>
         y (aabb_max boundsA) < y (aabb_min boundsB) \<or>
         y (aabb_min boundsA) > y (aabb_max boundsB))"
    using assms by (auto simp: testAABB_bounds_def)
  then show ?thesis
    using assms by (auto simp: testAABB_bounds_def Let_def Vector2_length_def split: if_splits)
qed

lemma testCircleCircle_at_unit:
  assumes "testCircleCircle_at a b posA radiusA posB radiusB = Some info"
    and "0 \<le> radiusA + radiusB"
  shows "Vector2_length (info_normal info) = 1 \<and> 0 \<le> info_penetration info"
proof -
  let ?delta = "Vector2_subtract posB posA"
  let ?d = "Vector2_length ?delta"
  have lt: "\<not> Vector2_lengthSquared ?delta \<ge> (radiusA + radiusB) * (radiusA + radiusB)"
    using assms(1) by (auto simp: testCircleCircle_at_def Let_def)
  then have "\<not> ?d \<ge> radiusA + radiusB"
    using sqrt_sq_le_iff [OF assms(2) Vector2_lengthSquared_nonneg, of ?delta]
    by (simp add: Vector2_length_sqrt)
  then have pen: "0 \<le> radiusA + radiusB - ?d" by simp
  have info: "info_normal info = (if ?d > 0.0001 then Vector2_normalize ?delta else Vector2 1 0)"
    "info_penetration info = radiusA + radiusB - ?d"
    using assms(1) lt by (auto simp: testCircleCircle_at_def Let_def Vector2_length_sqrt)
  have "Vector2_length (info_normal info) = 1"
  proof (cases "?d > 0.0001")
    case True
    then have "?d \<noteq> 0" by simp
    then show ?thesis using True info(1) by (simp add: Vector2_normalize_unit)
  next
    case False
    then show ?thesis using info(1) by (simp add: Vector2_length_def)
  qed
  then show ?thesis using pen info(2) by simp
qed


lemma testAABBCircle_at_unit:
  assumes "testAABBCircle_at box circle boxBounds circlePos r = Some info"
    and "0 \<le> r"
  shows "Vector2_length (info_normal info) = 1 \<and> 0 \<le> info_penetration info"
proof -
  define closest where "closest = Vector2 (max (x (aabb_min boxBounds)) (min (x circlePos) (x (aabb_max boxBounds))))
     (max (y (aabb_min boxBounds)) (min (y circlePos) (y (aabb_max boxBounds))))"
  define delta where "delta = Vector2_subtract circlePos closest"
  define d where "d = Vector2_length delta"
  define n where "n = (if d > 0.0001 then Vector2_normalize delta
                    else
                      let distToLeft = x circlePos - x (aabb_min boxBounds);
                          distToRight = x (aabb_max boxBounds) - x circlePos;
                          distToTop = y circlePos - y (aabb_min boxBounds);
                          distToBottom = y (aabb_max boxBounds) - y circlePos;
                          minDist = min (min (min distToLeft distToRight) distToTop) distToBottom
                      in if minDist = distToLeft then Vector2 (- 1) 0
                         else if minDist = distToRight then Vector2 1 0
                         else if minDist = distToTop then Vector2 0 (- 1)
                         else Vector2 0 1)"
  have unf: "testAABBCircle_at box circle boxBounds circlePos r =
     (if Vector2_lengthSquared delta \<ge> r * r then None
      else Some \<lparr> colliderA = box, colliderB = circle,
                  contacts = [\<lparr> point = closest, normal = n, penetration = r - d \<rparr>],
                     info_normal = n, info_penetration = r - d \<rparr>)"
    unfolding testAABBCircle_at_def Let_def n_def d_def delta_def closest_def Vector2_length_sqrt
    by (rule refl)
  have lt: "\<not> Vector2_lengthSquared delta \<ge> r * r"
    using assms(1) unfolding unf by (simp split: if_splits)
  then have "\<not> d \<ge> r"
    using sqrt_sq_le_iff [OF assms(2) Vector2_lengthSquared_nonneg, of delta]
    by (simp add: Vector2_length_sqrt d_def)
  then have pen: "0 \<le> r - d" by simp
  have p: "info_penetration info = r - d" and i: "info_normal info = n"
    using assms(1) lt unfolding unf by auto
  have "Vector2_length n = 1"
  proof (cases "d > 0.0001")
    case True
    then have "Vector2_length delta \<noteq> 0" by (simp add: d_def)
    then show ?thesis using True by (simp add: n_def Vector2_normalize_unit)
  next
    case False
    then show ?thesis by (simp add: n_def Let_def Vector2_length_def)
  qed
  then show ?thesis using pen p i by simp
qed

lemma swapColliders_unit:
  "Vector2_length (info_normal (CollisionInfo_swapColliders info)) = Vector2_length (info_normal info) \<and>
   info_penetration (CollisionInfo_swapColliders info) = info_penetration info"
  by (simp add: CollisionInfo_swapColliders_def Vector2_length_def Vector2_multiply_def)

lemma detect_unit:
  assumes "detect h a b = Some (Some info, h')"
    and "Collider_radius_ok (colliderObjs h a)" and "Collider_radius_ok (colliderObjs h b)"
  shows "Vector2_length (info_normal info) = 1 \<and> 0 \<le> info_penetration info"
proof (cases "shape (colliderObjs h a)")
  case (BoxCollider sa)
  note A = this
  show ?thesis
  proof (cases "shape (colliderObjs h b)")
    case (BoxCollider sb)
    with A assms(1) obtain boundsA boundsB where "testAABB_bounds a b boundsA boundsB = Some info"
      by (auto simp: detect_def testAABB_def split: Option.bind_splits)
    then show ?thesis by (rule testAABB_bounds_unit)
  next
    case (CircleCollider rb)
    with A assms(1) obtain boxBounds circlePos where
      "testAABBCircle_at a b boxBounds circlePos rb = Some info"
      by (auto simp: detect_def testAABBCircle_def split: Option.bind_splits)
    moreover have "0 \<le> rb" using assms(3) CircleCollider by (simp add: Collider_radius_ok_def)
    ultimately show ?thesis by (rule testAABBCircle_at_unit)
  qed
next
  case (CircleCollider ra)
  note A = this
  have ra: "0 \<le> ra" using assms(2) A by (simp add: Collider_radius_ok_def)
  show ?thesis
  proof (cases "shape (colliderObjs h b)")
    case (BoxCollider sb)
    with A assms(1) obtain boxBounds circlePos info0 where
      "testAABBCircle_at b a boxBounds circlePos ra = Some info0"
      "info = CollisionInfo_swapColliders info0"
      by (auto simp: detect_def testAABBCircle_def split: Option.bind_splits)
    then show ?thesis using testAABBCircle_at_unit [OF _ ra] swapColliders_unit [of info0] by simp
  next
    case (CircleCollider rb)
    with A assms(1) obtain posA posB where
      "testCircleCircle_at a b posA ra posB rb = Some info"
      by (auto simp: detect_def testCircleCircle_def split: Option.bind_splits)
    moreover have "0 \<le> ra + rb"
      using ra assms(3) CircleCollider by (simp add: Collider_radius_ok_def)
    ultimately show ?thesis by (rule testCircleCircle_at_unit)
  qed
qed


text \<open>
  C3. Every manifold the dispatcher returns, for colliders whose radii the radius setter
  allows, has a normal of length 1 within 1e-4 and a penetration of at least 0. This covers
  box/box, circle/circle, box/circle and the swapped circle/box case.
\<close>

theorem detect_normal_unit_penetration_nonneg:
  assumes "detect h a b = Some (Some info, h')"
    and "Collider_radius_ok (colliderObjs h a)" and "Collider_radius_ok (colliderObjs h b)"
  shows "\<bar>Vector2_length (info_normal info) - 1\<bar> \<le> 1 / 10000 \<and> 0 \<le> info_penetration info"
  using detect_unit [OF assms] by simp

theorem detect_normal_unit_penetration_nonneg_witness:
  "map_option fst (detect circles_heap 1 2) =
     Some (Some \<lparr> colliderA = 1, colliderB = 2,
            contacts = [\<lparr> point = Vector2 (9/5) (12/5), normal = Vector2 (3/5) (4/5), penetration = 2 \<rparr>],
            info_normal = Vector2 (3/5) (4/5), info_penetration = 2 \<rparr>) \<and>
   Collider_radius_ok (colliderObjs circles_heap 1) \<and>
   Collider_radius_ok (colliderObjs circles_heap 2) \<and>
   \<bar>Vector2_length (Vector2 (3/5) (4/5)) - 1\<bar> \<le> 1 / 10000 \<and> (0::real) \<le> 2"
proof -
  let ?info = "\<lparr> colliderA = 1, colliderB = 2,
            contacts = [\<lparr> point = Vector2 (9/5) (12/5), normal = Vector2 (3/5) (4/5), penetration = 2 \<rparr>],
            info_normal = Vector2 (3/5) (4/5), info_penetration = 2 \<rparr>"
  have c: "\<And>a b. testCircleCircle_at a b (Vector2 0 0) 3 (Vector2 3 4) 4 =
      Some \<lparr> colliderA = a, colliderB = b,
            contacts = [\<lparr> point = Vector2 (9/5) (12/5), normal = Vector2 (3/5) (4/5), penetration = 2 \<rparr>],
            info_normal = Vector2 (3/5) (4/5), info_penetration = 2 \<rparr>"
    by (simp add: testCircleCircle_at_def Let_def Vector2_subtract_def Vector2_lengthSquared_def
        sqrt_25 norm34 Vector2_add_def Vector2_multiply_def)
  have d: "detect circles_heap 1 2 = Some (Some ?info, circles_heap)"
    by (simp add: detect_def circles_heap_def Heap_new_def Collider_new_def testCircleCircle_def
        Collider_getWorldPosition_def Vector2_zero_def c)
  have r1: "Collider_radius_ok (colliderObjs circles_heap 1)"
    and r2: "Collider_radius_ok (colliderObjs circles_heap 2)"
    by (simp_all add: Collider_radius_ok_def circles_heap_def Heap_new_def Collider_new_def)
  from detect_normal_unit_penetration_nonneg [OF d r1 r2] d r1 r2
  show ?thesis by simp
qed

section \<open>Box against box\<close>

lemma testAABB_bounds_contact_point:
  assumes "testAABB_bounds a b boundsA boundsB = Some info"
  shows "map point (contacts info) =
           [Vector2 ((max (x (aabb_min boundsA)) (x (aabb_min boundsB)) +
                      min (x (aabb_max boundsA)) (x (aabb_max boundsB))) / 2) 0]"
  using assms
  by (auto simp: testAABB_bounds_def Let_def Vector2_new_def Vector2_multiply_def split: if_splits)

text \<open>
  C5. The contact point of two overlapping boxes is said to be the midpoint of the overlap
  rectangle in both coordinates. The code builds the point with one argument,
  \<open>new Vector2(max(minA.x, minB.x) + min(maxA.x, maxB.x))\<close>, so its y coordinate is the
  default 0: for the boxes [0, 10] x [0, 10] and [5, 15] x [5, 15] the overlap midpoint is
  (7.5, 7.5) and the contact point is (7.5, 0).
\<close>

theorem testAABB_contact_point_y_zero:
  "map_option (\<lambda>info. map point (contacts info))
     (testAABB_bounds 1 2 \<lparr> aabb_min = Vector2 0 0, aabb_max = Vector2 10 10 \<rparr>
                          \<lparr> aabb_min = Vector2 5 5, aabb_max = Vector2 15 15 \<rparr>)
     = Some [Vector2 (15 / 2) 0] \<and>
   overlap_midpoint \<lparr> aabb_min = Vector2 0 0, aabb_max = Vector2 10 10 \<rparr>
                    \<lparr> aabb_min = Vector2 5 5, aabb_max = Vector2 15 15 \<rparr>
     = Vector2 (15 / 2) (15 / 2)"
  by (simp add: testAABB_bounds_def Let_def Vector2_new_def Vector2_multiply_def overlap_midpoint_def)

section \<open>The integrator\<close>

lemma sqrt_sq_less_iff: "0 \<le> r \<Longrightarrow> (r * r < d) = (r < sqrt d)"
proof -
  assume r: "0 \<le> r"
  have "(r * r < d) = (sqrt (r * r) < sqrt d)" by (simp only: real_sqrt_less_iff)
  also have "sqrt (r * r) = r" using r by simp
  finally show ?thesis .
qed

lemma clamp_speed_gt:
  assumes "0 \<le> m" and "Vector2_lengthSquared v > m * m"
  shows "clamp_speed m v = Vector2_multiply (Vector2_normalize v) m"
proof -
  have gt: "Vector2_length v > m"
    using sqrt_sq_less_iff [OF assms(1), of "Vector2_lengthSquared v"] assms(2)
    by (simp add: Vector2_length_sqrt)
  then have nz: "Vector2_length v \<noteq> 0" using assms(1) by simp
  show ?thesis using gt nz
    by (simp add: clamp_speed_def Vector2_normalize_def Vector2_divide_def Vector2_multiply_def Let_def)
qed

lemma clamp_speed_le:
  assumes "0 \<le> m" and "\<not> Vector2_lengthSquared v > m * m"
  shows "clamp_speed m v = v"
proof -
  have "\<not> Vector2_length v > m"
    using sqrt_sq_less_iff [OF assms(1), of "Vector2_lengthSquared v"] assms(2)
    by (simp add: Vector2_length_sqrt)
  then show ?thesis by (simp add: clamp_speed_def)
qed

lemma Vector2_multiply_multiply: "Vector2_multiply (Vector2_multiply v s) t = Vector2_multiply v (s * t)"
  by (simp add: Vector2_multiply_def)

lemma Vector2_length_x_axis: "Vector2_length (Vector2 v 0) = \<bar>v\<bar>"
  by (simp add: Vector2_length_def)

lemma Vector2_length_y_axis: "Vector2_length (Vector2 0 v) = \<bar>v\<bar>"
  by (simp add: Vector2_length_def)


text \<open>
  C1, as the code has it. For a dynamic, awake body with an owning game object, and a
  speed limit that is not negative, one call of \<open>fixedUpdate\<close> performs the listed steps
  (gravity into the force when gravity is on, acceleration, velocity, drag, the speed limit,
  the translation, angular drag and rotation, the reset of force and torque) and then runs
  the sleep update on the body: the store afterwards holds the transform of
  \<open>integrate_steps\<close> and the body of \<open>integrate_steps\<close> after \<open>updateSleep\<close>.
\<close>

theorem RigidBody_fixedUpdate_steps:
  assumes "bodyType (bodies h b) = DYNAMIC" and "\<not> isSleeping (bodies h b)"
    and "gameObject (bodies h b) = Some g" and "0 \<le> MAX_VELOCITY c"
  shows "RigidBody_fixedUpdate c dt h b =
           h\<lparr>objects := (objects h)(g := (objects h g)
                 \<lparr>transform := snd (integrate_steps c dt (bodies h b) (transform (objects h g)))\<rparr>),
             bodies := (bodies h)(b := RigidBody_updateSleep c dt
                 (fst (integrate_steps c dt (bodies h b) (transform (objects h g)))))\<rparr>"
proof -
  define f where "f = (if useGravity (bodies h b)
               then Vector2_add (force (bodies h b))
                      (Vector2_multiply (GRAVITY c) (gravityScale (bodies h b) * mass (bodies h b)))
               else force (bodies h b))"
  define v2 where "v2 = Vector2_multiply
      (Vector2_add (velocity (bodies h b))
         (Vector2_multiply (Vector2_multiply f (RigidBody_inverseMass (bodies h b))) dt))
      (max 0 (1 - drag (bodies h b) * dt * 10))"
  define v3 where "v3 = (if Vector2_lengthSquared v2 > MAX_VELOCITY c * MAX_VELOCITY c
      then Vector2_multiply (Vector2_normalize v2) (MAX_VELOCITY c) else v2)"
  have v3: "clamp_speed (MAX_VELOCITY c) v2 = v3"
    using clamp_speed_gt [OF assms(4), of v2] clamp_speed_le [OF assms(4), of v2]
    by (simp add: v3_def)
  have spec: "integrate_steps c dt (bodies h b) (transform (objects h g)) =
      ((bodies h b)\<lparr>acceleration := Vector2_multiply f (RigidBody_inverseMass (bodies h b)),
          velocity := v3, angularVelocity := angularVelocity (bodies h b) * max 0 (1 - angularDrag (bodies h b) * dt * 10),
               force := Vector2_zero, torque := 0\<rparr>,
       (transform (objects h g))\<lparr>position := Vector2_add (position (transform (objects h g))) (Vector2_multiply v3 dt),
            rotation := rotation (transform (objects h g)) +
              angularVelocity (bodies h b) * max 0 (1 - angularDrag (bodies h b) * dt * 10) * dt\<rparr>)"
    unfolding integrate_steps_def Let_def f_def [symmetric] v2_def [symmetric] v3 by (rule refl)
  have code: "RigidBody_fixedUpdate c dt h b =
      h\<lparr>objects := (objects h)(g := (objects h g)\<lparr>transform :=
           (transform (objects h g))\<lparr>position := Vector2_add (position (transform (objects h g))) (Vector2_multiply v3 dt),
            rotation := rotation (transform (objects h g)) +
              angularVelocity (bodies h b) * max 0 (1 - angularDrag (bodies h b) * dt * 10) * dt\<rparr>\<rparr>),
        bodies := (bodies h)(b := RigidBody_updateSleep c dt
           ((bodies h b)\<lparr>acceleration := Vector2_multiply f (RigidBody_inverseMass (bodies h b)),
          velocity := v3, angularVelocity := angularVelocity (bodies h b) * max 0 (1 - angularDrag (bodies h b) * dt * 10),
               force := Vector2_zero, torque := 0\<rparr>))\<rparr>"
    using assms(1-3)
    by (simp add: RigidBody_fixedUpdate_def Let_def Transform_translate_def Transform_rotate_def
        Vector2_multiply_multiply RigidBody_inverseMass_def f_def v2_def v3_def)
  show ?thesis unfolding code spec by simp
qed


theorem RigidBody_fixedUpdate_steps_witness:
  "bodyType (bodies falling_heap 2) = DYNAMIC \<and> \<not> isSleeping (bodies falling_heap 2) \<and>
   gameObject (bodies falling_heap 2) = Some 2 \<and> 0 \<le> MAX_VELOCITY PhysicsConstants_default \<and>
   velocity (bodies (RigidBody_fixedUpdate PhysicsConstants_default (1 / 60) falling_heap 2) 2)
     = Vector2 0 (2891 / 180) \<and>
   position (transform (objects (RigidBody_fixedUpdate PhysicsConstants_default (1 / 60) falling_heap 2) 2))
     = Vector2 0 (2891 / 10800) \<and>
   force (bodies (RigidBody_fixedUpdate PhysicsConstants_default (1 / 60) falling_heap 2) 2)
     = Vector2 0 0"
proof -
  let ?B = "RigidBody_new\<lparr>gameObject := Some 2, acceleration := Vector2 0 980,
              velocity := Vector2 0 (2891 / 180)\<rparr>"
  let ?T = "Transform_new\<lparr>position := Vector2 0 (2891 / 10800)\<rparr>"
  have h: "bodyType (bodies falling_heap 2) = DYNAMIC" "\<not> isSleeping (bodies falling_heap 2)"
    "gameObject (bodies falling_heap 2) = Some 2" "0 \<le> MAX_VELOCITY PhysicsConstants_default"
    by (simp_all add: falling_heap_def Heap_new_def RigidBody_new_def PhysicsConstants_default_def)
  have s: "integrate_steps PhysicsConstants_default (1 / 60) (bodies falling_heap 2)
             (transform (objects falling_heap 2)) = (?B, ?T)"
    by (simp add: integrate_steps_def Let_def falling_heap_def Heap_new_def RigidBody_new_def
        GameObject_new_def Transform_new_def PhysicsConstants_default_def RigidBody_inverseMass_def
        Vector2_add_def Vector2_multiply_def Vector2_zero_def clamp_speed_def Vector2_length_y_axis)
  have u: "RigidBody_updateSleep PhysicsConstants_default (1 / 60) ?B = ?B"
    by (simp add: RigidBody_updateSleep_def Let_def RigidBody_new_def PhysicsConstants_default_def
        Vector2_length_y_axis)
  have r: "RigidBody_fixedUpdate PhysicsConstants_default (1 / 60) falling_heap 2 =
      falling_heap\<lparr>objects := (objects falling_heap)(2 := (objects falling_heap 2)\<lparr>transform := ?T\<rparr>),
                   bodies := (bodies falling_heap)(2 := ?B)\<rparr>"
    using RigidBody_fixedUpdate_steps [OF h, of "1 / 60"] by (simp only: s u fst_conv snd_conv)
  show ?thesis
    using h by (simp add: r RigidBody_new_def Transform_new_def Vector2_zero_def)
qed


text \<open>
  The claim as stated ends the call with the reset of the accumulators. The sleep update
  that follows can undo the velocity: a body that moves at 0.3 with 0.49 on its sleep timer
  leaves the listed steps with velocity (0.3, 0), and leaves the call asleep with velocity
  (0, 0).
\<close>

theorem RigidBody_fixedUpdate_sleep_counterexample:
  "bodyType (bodies drowsy_heap 2) = DYNAMIC \<and> \<not> isSleeping (bodies drowsy_heap 2) \<and>
   gameObject (bodies drowsy_heap 2) = Some 2 \<and>
   velocity (fst (integrate_steps PhysicsConstants_default (1 / 60) (bodies drowsy_heap 2)
                    (transform (objects drowsy_heap 2)))) = Vector2 (3 / 10) 0 \<and>
   velocity (bodies (RigidBody_fixedUpdate PhysicsConstants_default (1 / 60) drowsy_heap 2) 2)
     = Vector2 0 0 \<and>
   isSleeping (bodies (RigidBody_fixedUpdate PhysicsConstants_default (1 / 60) drowsy_heap 2) 2)"
  by (simp add: RigidBody_fixedUpdate_def integrate_steps_def Let_def drowsy_heap_def Heap_new_def
      RigidBody_new_def GameObject_new_def Transform_new_def PhysicsConstants_default_def
      RigidBody_inverseMass_def Vector2_add_def Vector2_multiply_def Vector2_zero_def
      clamp_speed_def Vector2_length_x_axis Vector2_lengthSquared_def RigidBody_updateSleep_def
      Transform_translate_def Transform_rotate_def)


section \<open>Ray queries\<close>

lemma ray_bounds:
  "Collider_getBounds ray_heap 2 =
     Some (\<lparr> aabb_min = Vector2 8 (- 2), aabb_max = Vector2 12 2 \<rparr>,
           ray_heap\<lparr>colliderObjs := (colliderObjs ray_heap)
             (2 := (colliderObjs ray_heap 2)\<lparr>bounds := Some \<lparr> aabb_min = Vector2 8 (- 2), aabb_max = Vector2 12 2 \<rparr>\<rparr>)\<rparr>)"
  by (simp add: Collider_getBounds_def Collider_updateBounds_def Collider_computeBounds_def
      Collider_getWorldPosition_def Shape_computeBounds_def ray_heap_def Heap_new_def Collider_new_def
      Let_def Vector2_multiply_def)

lemma ray_hit:
  "raycastAABB_bounds (Vector2 0 0) (Vector2 1 0) c \<lparr> aabb_min = Vector2 8 (- 2), aabb_max = Vector2 12 2 \<rparr> 8
     = Some \<lparr> hit_collider = c, hit_point = Vector2 8 0, hit_normal = Vector2 (- 1) 0, distance = 8 \<rparr>"
  by (simp add: raycastAABB_bounds_def raycastAABB_axis_def Let_def Vector2_add_def Vector2_multiply_def)

lemma normalize_x_axis: "Vector2_normalize (Vector2 1 0) = Vector2 1 0"
  by (simp add: Vector2_normalize_def Vector2_length_def Vector2_divide_def)

lemma ray_collider:
  "raycastCollider ray_heap (Vector2 0 0) (Vector2 1 0) 2 8 =
     Some (Some \<lparr> hit_collider = 2, hit_point = Vector2 8 0, hit_normal = Vector2 (- 1) 0, distance = 8 \<rparr>,
           ray_heap\<lparr>colliderObjs := (colliderObjs ray_heap)
             (2 := (colliderObjs ray_heap 2)\<lparr>bounds := Some \<lparr> aabb_min = Vector2 8 (- 2), aabb_max = Vector2 12 2 \<rparr>\<rparr>)\<rparr>)"
proof -
  have "shape (colliderObjs ray_heap 2) = BoxCollider (Vector2 4 4)"
    by (simp add: ray_heap_def Collider_new_def)
  then show ?thesis
    by (simp add: raycastCollider_def raycastAABB_def ray_bounds ray_hit)
qed

text \<open>
  C7. \<open>raycast\<close> is said to return the closest hit at a distance from 0 up to and including
  \<open>maxDistance\<close>. The loop starts with \<open>closestDistance = maxDistance\<close> and keeps a hit only
  if \<open>hit.distance < closestDistance\<close>, so a hit at \<open>maxDistance\<close> exactly is dropped: for
  the ray from (0, 0) along (1, 0) with \<open>maxDistance = 8\<close> and the box of size 4 x 4 centred at
  (10, 0), \<open>raycastCollider\<close> finds the hit at distance 8, \<open>raycastAll\<close> returns it, and
  \<open>raycast\<close> returns null.
\<close>

theorem raycast_misses_hit_at_maxDistance:
  "map_option fst (raycastCollider ray_heap (Vector2 0 0) (Vector2 1 0) 2 8) =
     Some (Some \<lparr> hit_collider = 2, hit_point = Vector2 8 0, hit_normal = Vector2 (- 1) 0, distance = 8 \<rparr>) \<and>
   enabled (colliderObjs ray_heap 2) \<and>
   map_option fst (PhysicsManager_raycastAll ray_manager ray_heap (Vector2 0 0) (Vector2 1 0) (Some 8)) =
     Some [\<lparr> hit_collider = 2, hit_point = Vector2 8 0, hit_normal = Vector2 (- 1) 0, distance = 8 \<rparr>] \<and>
   map_option fst (PhysicsManager_raycast ray_manager ray_heap (Vector2 0 0) (Vector2 1 0) (Some 8)) =
     Some None"
proof -
  have e: "enabled (colliderObjs ray_heap 2)"
    by (simp add: ray_heap_def Collider_new_def)
  have m: "colliders ray_manager = [2]"
    by (simp add: ray_manager_def registerCollider_def PhysicsManager_new_def)
  show ?thesis
    by (simp add: e m ray_collider PhysicsManager_raycast_def PhysicsManager_raycastAll_def
        raycast_step_def raycastAll_step_def normalize_x_axis Let_def)
qed

section \<open>Trigger pairs\<close>

lemma dispatch_side_trigger: "list_all is_trigger_event (dispatch_side h a b True ev)"
  by (simp add: dispatch_side_def split: option.split)

text \<open>
  No part of a step changes a trigger flag, so both solver phases of a fixed step return
  what they return on the collisions without the trigger pairs.
\<close>

lemma same_triggers_refl: "same_triggers h h"
  by (simp add: same_triggers_def)

lemma same_triggers_trans: "same_triggers h h1 \<Longrightarrow> same_triggers h1 h2 \<Longrightarrow> same_triggers h h2"
  by (simp add: same_triggers_def)

lemma same_triggers_pair: "same_triggers h h' \<Longrightarrow> trigger_pair h' info = trigger_pair h info"
  by (auto simp: same_triggers_def trigger_pair_def fun_eq_iff)

lemma updateBounds_triggers: "Collider_updateBounds h k = Some h' \<Longrightarrow> same_triggers h h'"
  by (auto simp: Collider_updateBounds_def same_triggers_def fun_eq_iff split: if_splits)

lemma getBounds_triggers: "Collider_getBounds h k = Some r \<Longrightarrow> same_triggers h (snd r)"
  by (auto simp: Collider_getBounds_def same_triggers_refl
      split: option.splits Option.bind_splits dest: updateBounds_triggers)

lemma detect_triggers: "detect h a b = Some r \<Longrightarrow> same_triggers h (snd r)"
  by (auto simp: detect_def testAABB_def testCircleCircle_def testAABBCircle_def same_triggers_refl
      split: Shape.splits Option.bind_splits
      dest!: getBounds_triggers intro: same_triggers_trans)


lemma colliderObjs_set_position [simp]:
  "colliderObjs (Transform_set_position h g v) = colliderObjs h"
  by (simp add: Transform_set_position_def)

lemma colliderObjs_set_velocity [simp]:
  "colliderObjs (Heap_set_velocity h b v) = colliderObjs h"
  by (simp add: Heap_set_velocity_def)

lemma resolvePositionalCorrection_colliders:
  "colliderObjs (resolvePositionalCorrection c h info bodyA bodyB) = colliderObjs h"
  by (simp add: resolvePositionalCorrection_def Let_def split: option.split)

lemma resolveFriction_colliders:
  "colliderObjs (resolveFriction h info bodyA bodyB j) = colliderObjs h"
  by (simp add: resolveFriction_def Let_def)

lemma resolveImpulse_colliders:
  "colliderObjs (resolveImpulse h info bodyA bodyB) = colliderObjs h"
  by (simp add: resolveImpulse_def Let_def resolveFriction_colliders)

lemma resolve_colliders:
  "colliderObjs (CollisionResolver_resolve c h info) = colliderObjs h"
  "colliderObjs (CollisionResolver_resolvePositionOnly c h info) = colliderObjs h"
  by (simp_all add: CollisionResolver_resolve_def CollisionResolver_resolvePositionOnly_def
      resolveImpulse_colliders resolvePositionalCorrection_colliders split: option.split)

lemma same_triggers_colliders: "colliderObjs h' = colliderObjs h \<Longrightarrow> same_triggers h h'"
  by (simp add: same_triggers_def)

lemma positionSolve_pair_triggers:
  "positionSolve_pair c h info = Some h' \<Longrightarrow> same_triggers h h'"
  by (auto simp: positionSolve_pair_def Let_def same_triggers_refl
      split: if_splits Option.bind_splits option.splits
      dest!: detect_triggers
      intro: same_triggers_trans same_triggers_colliders resolve_colliders)

lemma velocitySolve_pair_triggers:
  "velocitySolve_pair c h info = Some h' \<Longrightarrow> same_triggers h h'"
  by (auto simp: velocitySolve_pair_def Let_def same_triggers_refl
      split: if_splits Option.bind_splits option.splits
      dest!: detect_triggers
      intro: same_triggers_trans same_triggers_colliders resolve_colliders)

lemma velocitySolve_pair_trigger:
  "trigger_pair h info \<Longrightarrow> velocitySolve_pair c h info = Some h"
  by (auto simp: velocitySolve_pair_def trigger_pair_def Let_def)

lemma positionSolve_pair_trigger:
  "trigger_pair h info \<Longrightarrow> positionSolve_pair c h info = Some h"
  by (auto simp: positionSolve_pair_def trigger_pair_def Let_def)

lemma forEach_triggers:
  assumes f: "\<And>h a h'. f h a = Some h' \<Longrightarrow> same_triggers h h'"
  shows "forEach f h as = Some h' \<Longrightarrow> same_triggers h h'"
proof (induction as arbitrary: h)
  case Nil
  then show ?case by (simp add: same_triggers_refl)
next
  case (Cons a as)
  then obtain h1 where h1: "f h a = Some h1" and r: "forEach f h1 as = Some h'"
    by (auto split: Option.bind_splits)
  from f [OF h1] Cons.IH [OF r] show ?case by (rule same_triggers_trans)
qed

lemma forEach_skips_triggers:
  assumes f: "\<And>h kv h'. f h kv = Some h' \<Longrightarrow> same_triggers h h'"
    and t: "\<And>h kv. trigger_pair h (snd kv) \<Longrightarrow> f h kv = Some h"
  shows "forEach f h current = forEach f h (filter (\<lambda>kv. \<not> trigger_pair h (snd kv)) current)"
proof (induction current arbitrary: h)
  case Nil
  show ?case by simp
next
  case (Cons kv current)
  show ?case
  proof (cases "trigger_pair h (snd kv)")
    case True
    then show ?thesis using Cons.IH [of h] by (simp add: t)
  next
    case False
    show ?thesis
    proof (cases "f h kv")
      case None
      with False show ?thesis by simp
    next
      case (Some h')
      from f [OF Some]
      have e: "filter (\<lambda>kv. \<not> trigger_pair h' (snd kv)) current =
               filter (\<lambda>kv. \<not> trigger_pair h (snd kv)) current"
        by (simp add: same_triggers_pair)
      have "forEach f h (kv # current) = forEach f h' current"
        using Some by simp
      also have "\<dots> = forEach f h' (filter (\<lambda>kv. \<not> trigger_pair h (snd kv)) current)"
        using Cons.IH [of h'] by (simp only: e)
      also have "\<dots> = forEach f h (filter (\<lambda>kv. \<not> trigger_pair h (snd kv)) (kv # current))"
        using False Some by simp
      finally show ?thesis .
    qed
  qed
qed

lemma velocitySolver_skips_triggers:
  "velocitySolver c current h =
   velocitySolver c (filter (\<lambda>kv. \<not> trigger_pair h (snd kv)) current) h"
  unfolding velocitySolver_def
  by (rule forEach_skips_triggers) (auto dest: velocitySolve_pair_triggers simp: velocitySolve_pair_trigger)

lemma updateBoundsAll_triggers: "updateBoundsAll m h = Some h' \<Longrightarrow> same_triggers h h'"
  unfolding updateBoundsAll_def
  by (erule forEach_triggers [rotated])
     (auto split: if_splits dest: updateBounds_triggers simp: same_triggers_refl)

lemma position_iteration_skips_triggers:
  assumes "same_triggers h0 h"
  shows "Option.bind (updateBoundsAll m h)
           (\<lambda>h1. forEach (\<lambda>h kv. positionSolve_pair c h (snd kv)) h1 current) =
         Option.bind (updateBoundsAll m h)
           (\<lambda>h1. forEach (\<lambda>h kv. positionSolve_pair c h (snd kv)) h1
                   (filter (\<lambda>kv. \<not> trigger_pair h0 (snd kv)) current))"
proof (cases "updateBoundsAll m h")
  case None
  then show ?thesis by simp
next
  case (Some h1)
  from same_triggers_trans [OF assms updateBoundsAll_triggers [OF Some]]
  have e: "filter (\<lambda>kv. \<not> trigger_pair h1 (snd kv)) current =
           filter (\<lambda>kv. \<not> trigger_pair h0 (snd kv)) current"
    by (simp add: same_triggers_pair)
  have "forEach (\<lambda>h kv. positionSolve_pair c h (snd kv)) h1 current =
        forEach (\<lambda>h kv. positionSolve_pair c h (snd kv)) h1
          (filter (\<lambda>kv. \<not> trigger_pair h1 (snd kv)) current)"
    by (rule forEach_skips_triggers)
       (auto dest: positionSolve_pair_triggers simp: positionSolve_pair_trigger)
  with Some show ?thesis by (simp only: e) simp
qed

lemma position_iteration_triggers:
  assumes "Option.bind (updateBoundsAll m h)
             (\<lambda>h1. forEach (\<lambda>h kv. positionSolve_pair c h (snd kv)) h1 current) = Some h'"
  shows "same_triggers h h'"
proof -
  from assms obtain h1 where u: "updateBoundsAll m h = Some h1"
    and p: "forEach (\<lambda>h kv. positionSolve_pair c h (snd kv)) h1 current = Some h'"
    by (auto split: Option.bind_splits)
  have "same_triggers h1 h'"
    using p by (rule forEach_triggers [rotated]) (auto dest: positionSolve_pair_triggers)
  with updateBoundsAll_triggers [OF u] show ?thesis by (rule same_triggers_trans)
qed

lemma position_iterations_skip_triggers:
  assumes "same_triggers h0 h"
  shows "forEach (\<lambda>h iter. Option.bind (updateBoundsAll m h)
            (\<lambda>h1. forEach (\<lambda>h kv. positionSolve_pair c h (snd kv)) h1 current)) h (its :: nat list) =
         forEach (\<lambda>h iter. Option.bind (updateBoundsAll m h)
            (\<lambda>h1. forEach (\<lambda>h kv. positionSolve_pair c h (snd kv)) h1
                    (filter (\<lambda>kv. \<not> trigger_pair h0 (snd kv)) current))) h its"
  using assms
proof (induction its arbitrary: h)
  case Nil
  show ?case by simp
next
  case (Cons it its)
  let ?B = "Option.bind (updateBoundsAll m h)
            (\<lambda>h1. forEach (\<lambda>h kv. positionSolve_pair c h (snd kv)) h1 current)"
  show ?case
  proof (cases ?B)
    case None
    then show ?thesis
      using position_iteration_skips_triggers [OF Cons.prems, of m c current] by simp
  next
    case (Some h')
    from position_iteration_triggers [OF Some] Cons.prems
    have "same_triggers h0 h'" by (blast intro: same_triggers_trans)
    from Cons.IH [OF this] Some position_iteration_skips_triggers [OF Cons.prems, of m c current]
    show ?thesis by simp
  qed
qed

lemma positionSolver_skips_triggers:
  "positionSolver c m current h =
   positionSolver c m (filter (\<lambda>kv. \<not> trigger_pair h (snd kv)) current) h"
  unfolding positionSolver_def
  by (rule position_iterations_skip_triggers) (rule same_triggers_refl)

text \<open>
  Without pairs the position solver only refreshes the cached bounds of the colliders.
\<close>

lemma forEach_preserves:
  assumes f: "\<And>h a h'. f h a = Some h' \<Longrightarrow> g h' = g h"
  shows "forEach f h as = Some h' \<Longrightarrow> g h' = g h"
proof (induction as arbitrary: h)
  case Nil
  then show ?case by simp
next
  case (Cons a as)
  then obtain h1 where h1: "f h a = Some h1" and r: "forEach f h1 as = Some h'"
    by (auto split: Option.bind_splits)
  from f [OF h1] Cons.IH [OF r] show ?case by simp
qed

lemma updateBoundsAll_bodies:
  assumes "updateBoundsAll m h = Some h'"
  shows "objects h' = objects h" and "bodies h' = bodies h"
proof -
  show "objects h' = objects h"
    using assms unfolding updateBoundsAll_def
    by (rule forEach_preserves [rotated]) (auto simp: Collider_updateBounds_def split: if_splits)
  show "bodies h' = bodies h"
    using assms unfolding updateBoundsAll_def
    by (rule forEach_preserves [rotated]) (auto simp: Collider_updateBounds_def split: if_splits)
qed

lemma positionSolver_no_pairs:
  assumes "positionSolver c m [] h = Some h'"
  shows "objects h' = objects h" and "bodies h' = bodies h"
proof -
  show "objects h' = objects h"
    using assms unfolding positionSolver_def
    by (rule forEach_preserves [rotated]) (auto split: Option.bind_splits dest: updateBoundsAll_bodies)
  show "bodies h' = bodies h"
    using assms unfolding positionSolver_def
    by (rule forEach_preserves [rotated]) (auto split: Option.bind_splits dest: updateBoundsAll_bodies)
qed

lemma only_trigger_pairs:
  "list_all (\<lambda>kv. trigger_pair h (snd kv)) current \<Longrightarrow>
   filter (\<lambda>kv. \<not> trigger_pair h (snd kv)) current = []"
  by (induction current) simp_all


text \<open>
  A fixed step whose phases up to the position solver return ends with the velocity solver
  and the callbacks; and with the store and the collisions of its narrow phase, it is the
  two solvers on the collisions without the trigger pairs, followed by the callbacks.
\<close>

lemma fixedUpdate_phases:
  assumes "updateBoundsAll m (integrateBodies c dt m h) = Some h_bounds"
    and "forEach narrowPhase_pair ([], updateCollisionStates m h_bounds)
           (potentialPairs (filter (\<lambda>k. enabled (colliderObjs (updateCollisionStates m h_bounds) k)) (colliders m)))
         = Some (current, h_narrow)"
    and "positionSolver c m current h_narrow = Some h_solved"
  shows "PhysicsManager_fixedUpdate c dt m h =
           map_option (\<lambda>h_final. (m\<lparr>collisionPairs := current\<rparr>, h_final, dispatchCollisionEvents m h_final current))
             (velocitySolver c current h_solved)"
  using assms by (simp add: PhysicsManager_fixedUpdate_def map_option_case split: option.split Option.bind_split)

lemma positionSolver_triggers:
  "positionSolver c m current h = Some h' \<Longrightarrow> same_triggers h h'"
  unfolding positionSolver_def
  by (erule forEach_triggers [rotated]) (rule position_iteration_triggers)

lemma fixedUpdate_skips_triggers:
  assumes u: "updateBoundsAll m (integrateBodies c dt m h_start) = Some h_bounds"
    and np: "forEach narrowPhase_pair ([], updateCollisionStates m h_bounds)
           (potentialPairs (filter (\<lambda>k. enabled (colliderObjs (updateCollisionStates m h_bounds) k)) (colliders m)))
         = Some (current, h)"
  shows "PhysicsManager_fixedUpdate c dt m h_start =
     Option.bind (positionSolver c m (filter (\<lambda>kv. \<not> trigger_pair h (snd kv)) current) h) (\<lambda>h_solved.
       map_option (\<lambda>h_final. (m\<lparr>collisionPairs := current\<rparr>, h_final, dispatchCollisionEvents m h_final current))
         (velocitySolver c (filter (\<lambda>kv. \<not> trigger_pair h (snd kv)) current) h_solved))"
proof (cases "positionSolver c m current h")
  case None
  then have "PhysicsManager_fixedUpdate c dt m h_start = None"
    using u np by (simp add: PhysicsManager_fixedUpdate_def)
  moreover have "positionSolver c m (filter (\<lambda>kv. \<not> trigger_pair h (snd kv)) current) h = None"
    using None positionSolver_skips_triggers [of c m current h] by simp
  ultimately show ?thesis by simp
next
  case (Some h_solved)
  have e: "filter (\<lambda>kv. \<not> trigger_pair h_solved (snd kv)) current =
           filter (\<lambda>kv. \<not> trigger_pair h (snd kv)) current"
    using positionSolver_triggers [OF Some] by (simp add: same_triggers_pair)
  have "PhysicsManager_fixedUpdate c dt m h_start =
      map_option (\<lambda>h_final. (m\<lparr>collisionPairs := current\<rparr>, h_final, dispatchCollisionEvents m h_final current))
        (velocitySolver c current h_solved)"
    by (rule fixedUpdate_phases [OF u np Some])
  also have "velocitySolver c current h_solved =
      velocitySolver c (filter (\<lambda>kv. \<not> trigger_pair h (snd kv)) current) h_solved"
    using velocitySolver_skips_triggers [of c current h_solved] by (simp only: e)
  finally show ?thesis
    using Some positionSolver_skips_triggers [of c m current h] by simp
qed


text \<open>
  C8, as the code has it. For a pair of colliders of which at least one is a trigger, the
  bodies of the position-solver loop and of the velocity-solver loop leave the store as it
  is: the pair gets no positional correction and no impulse or friction. Both solver phases
  return what they return on the collisions without the trigger pairs, and a fixed step
  whose narrow phase returns the collisions \<open>current\<close> and the store \<open>h\<close> is the two solvers
  on \<open>current\<close> without its trigger pairs, followed by the callbacks. So a body of a trigger
  pair is still moved by a pair without a trigger that it is also in. When every pair has a
  trigger, the velocity solver changes nothing and the position solver changes no game
  object and no body. The callbacks made for the pair, on enter, stay and exit, are trigger
  callbacks only.
\<close>

theorem trigger_pairs_skipped:
  assumes "trigger_pair h info"
  shows "positionSolve_pair c h info = Some h \<and> velocitySolve_pair c h info = Some h \<and>
         positionSolver c m current h =
           positionSolver c m (filter (\<lambda>kv. \<not> trigger_pair h (snd kv)) current) h \<and>
         velocitySolver c current h =
           velocitySolver c (filter (\<lambda>kv. \<not> trigger_pair h (snd kv)) current) h \<and>
         (updateBoundsAll m (integrateBodies c dt m h_start) = Some h_bounds \<longrightarrow>
          forEach narrowPhase_pair ([], updateCollisionStates m h_bounds)
            (potentialPairs (filter (\<lambda>k. enabled (colliderObjs (updateCollisionStates m h_bounds) k)) (colliders m)))
            = Some (current, h) \<longrightarrow>
          PhysicsManager_fixedUpdate c dt m h_start =
            Option.bind (positionSolver c m (filter (\<lambda>kv. \<not> trigger_pair h (snd kv)) current) h) (\<lambda>h_solved.
              map_option (\<lambda>h_final. (m\<lparr>collisionPairs := current\<rparr>, h_final, dispatchCollisionEvents m h_final current))
                (velocitySolver c (filter (\<lambda>kv. \<not> trigger_pair h (snd kv)) current) h_solved))) \<and>
         (list_all (\<lambda>kv. trigger_pair h (snd kv)) current \<longrightarrow>
            velocitySolver c current h = Some h \<and>
            (\<forall>h'. positionSolver c m current h = Some h' \<longrightarrow>
                  objects h' = objects h \<and> bodies h' = bodies h)) \<and>
         list_all is_trigger_event (dispatch_pair h info) \<and>
         list_all is_trigger_event (dispatch_exit h (colliderA info) (colliderB info)) \<and>
         list_all is_trigger_event (dispatch_exit h (colliderB info) (colliderA info))"
proof -
  have p: "positionSolve_pair c h info = Some h" and v: "velocitySolve_pair c h info = Some h"
    using assms by (simp_all add: positionSolve_pair_trigger velocitySolve_pair_trigger)
  have ps: "positionSolver c m current h =
      positionSolver c m (filter (\<lambda>kv. \<not> trigger_pair h (snd kv)) current) h"
    by (rule positionSolver_skips_triggers)
  have vs: "velocitySolver c current h =
      velocitySolver c (filter (\<lambda>kv. \<not> trigger_pair h (snd kv)) current) h"
    by (rule velocitySolver_skips_triggers)
  have f: "PhysicsManager_fixedUpdate c dt m h_start =
      Option.bind (positionSolver c m (filter (\<lambda>kv. \<not> trigger_pair h (snd kv)) current) h) (\<lambda>h_solved.
        map_option (\<lambda>h_final. (m\<lparr>collisionPairs := current\<rparr>, h_final, dispatchCollisionEvents m h_final current))
          (velocitySolver c (filter (\<lambda>kv. \<not> trigger_pair h (snd kv)) current) h_solved))"
    if "updateBoundsAll m (integrateBodies c dt m h_start) = Some h_bounds"
      and "forEach narrowPhase_pair ([], updateCollisionStates m h_bounds)
        (potentialPairs (filter (\<lambda>k. enabled (colliderObjs (updateCollisionStates m h_bounds) k)) (colliders m)))
        = Some (current, h)"
    using that by (rule fixedUpdate_skips_triggers)
  have a: "velocitySolver c current h = Some h \<and>
      (\<forall>h'. positionSolver c m current h = Some h' \<longrightarrow>
            objects h' = objects h \<and> bodies h' = bodies h)"
    if t: "list_all (\<lambda>kv. trigger_pair h (snd kv)) current"
  proof -
    note e = only_trigger_pairs [OF t]
    have "velocitySolver c current h = Some h"
      using vs by (simp add: e velocitySolver_def)
    moreover have "positionSolver c m current h = positionSolver c m [] h"
      using ps by (simp only: e)
    ultimately show ?thesis
      by (auto dest: positionSolver_no_pairs)
  qed
  have t: "isTrigger (colliderObjs h (colliderA info)) \<or> isTrigger (colliderObjs h (colliderB info))"
    using assms by (simp add: trigger_pair_def)
  have d: "list_all is_trigger_event (dispatch_pair h info)"
    using t by (simp add: dispatch_pair_def Let_def dispatch_side_trigger)
  have e1: "list_all is_trigger_event (dispatch_exit h (colliderA info) (colliderB info))"
    and e2: "list_all is_trigger_event (dispatch_exit h (colliderB info) (colliderA info))"
    using t by (auto simp: dispatch_exit_def split: option.split)
  from p v ps vs f a d e1 e2 show ?thesis by blast
qed

section \<open>The velocity iteration count\<close>

lemma VELOCITY_ITERATIONS_other_fields:
  "GRAVITY (c\<lparr>VELOCITY_ITERATIONS := n\<rparr>) = GRAVITY c"
  "MAX_VELOCITY (c\<lparr>VELOCITY_ITERATIONS := n\<rparr>) = MAX_VELOCITY c"
  "SLEEP_THRESHOLD (c\<lparr>VELOCITY_ITERATIONS := n\<rparr>) = SLEEP_THRESHOLD c"
  "SLEEP_TIME (c\<lparr>VELOCITY_ITERATIONS := n\<rparr>) = SLEEP_TIME c"
  "CORRECTION_PERCENT (c\<lparr>VELOCITY_ITERATIONS := n\<rparr>) = CORRECTION_PERCENT c"
  "CORRECTION_SLOP (c\<lparr>VELOCITY_ITERATIONS := n\<rparr>) = CORRECTION_SLOP c"
  "POSITION_ITERATIONS (c\<lparr>VELOCITY_ITERATIONS := n\<rparr>) = POSITION_ITERATIONS c"
  by simp_all

lemma updateSleep_VELOCITY_ITERATIONS:
  "RigidBody_updateSleep (c\<lparr>VELOCITY_ITERATIONS := n\<rparr>) = RigidBody_updateSleep c"
  unfolding RigidBody_updateSleep_def fun_eq_iff VELOCITY_ITERATIONS_other_fields by simp

lemma RigidBody_fixedUpdate_VELOCITY_ITERATIONS:
  "RigidBody_fixedUpdate (c\<lparr>VELOCITY_ITERATIONS := n\<rparr>) = RigidBody_fixedUpdate c"
  unfolding RigidBody_fixedUpdate_def fun_eq_iff VELOCITY_ITERATIONS_other_fields
    updateSleep_VELOCITY_ITERATIONS by simp

lemma resolvePositionalCorrection_VELOCITY_ITERATIONS:
  "resolvePositionalCorrection (c\<lparr>VELOCITY_ITERATIONS := n\<rparr>) = resolvePositionalCorrection c"
  unfolding resolvePositionalCorrection_def fun_eq_iff VELOCITY_ITERATIONS_other_fields by simp

lemma resolve_VELOCITY_ITERATIONS:
  "CollisionResolver_resolve (c\<lparr>VELOCITY_ITERATIONS := n\<rparr>) = CollisionResolver_resolve c"
  "CollisionResolver_resolvePositionOnly (c\<lparr>VELOCITY_ITERATIONS := n\<rparr>) =
     CollisionResolver_resolvePositionOnly c"
  unfolding CollisionResolver_resolve_def CollisionResolver_resolvePositionOnly_def fun_eq_iff
    resolvePositionalCorrection_VELOCITY_ITERATIONS by simp_all

lemma solve_pair_VELOCITY_ITERATIONS:
  "positionSolve_pair (c\<lparr>VELOCITY_ITERATIONS := n\<rparr>) = positionSolve_pair c"
  "velocitySolve_pair (c\<lparr>VELOCITY_ITERATIONS := n\<rparr>) = velocitySolve_pair c"
  unfolding positionSolve_pair_def velocitySolve_pair_def fun_eq_iff resolve_VELOCITY_ITERATIONS
  by simp_all

lemma solver_VELOCITY_ITERATIONS:
  "integrateBodies (c\<lparr>VELOCITY_ITERATIONS := n\<rparr>) = integrateBodies c"
  "positionSolver (c\<lparr>VELOCITY_ITERATIONS := n\<rparr>) = positionSolver c"
  "velocitySolver (c\<lparr>VELOCITY_ITERATIONS := n\<rparr>) = velocitySolver c"
  unfolding integrateBodies_def positionSolver_def velocitySolver_def fun_eq_iff
    solve_pair_VELOCITY_ITERATIONS RigidBody_fixedUpdate_VELOCITY_ITERATIONS
    VELOCITY_ITERATIONS_other_fields
  by simp_all


text \<open>
  The collisions of a step hold each pair once: the narrow phase keeps the keys distinct.
\<close>

lemma narrowPhase_pair_distinct:
  assumes "narrowPhase_pair s p = Some s'" and "distinct (map fst (fst s))"
  shows "distinct (map fst (fst s'))"
  using assms
  by (auto simp: narrowPhase_pair_def Let_def distinct_update
      split: if_splits Option.bind_splits option.splits)

lemma narrowPhase_distinct:
  "forEach narrowPhase_pair s ps = Some s' \<Longrightarrow> distinct (map fst (fst s)) \<Longrightarrow>
   distinct (map fst (fst s'))"
proof (induction ps arbitrary: s)
  case Nil
  then show ?case by simp
next
  case (Cons p ps)
  then obtain s1 where s1: "narrowPhase_pair s p = Some s1" and r: "forEach narrowPhase_pair s1 ps = Some s'"
    by (auto split: Option.bind_splits)
  from Cons.IH [OF r narrowPhase_pair_distinct [OF s1 Cons.prems(2)]] show ?case .
qed

text \<open>
  On a pair without a trigger the body of the velocity-solver loop is one impulse and
  friction pass, and a fixed step whose earlier phases return ends with the velocity solver
  and the callbacks.
\<close>

lemma velocitySolve_pair_pass:
  "\<not> trigger_pair h info \<Longrightarrow> velocitySolve_pair c h info = impulse_friction_pass c h info"
  by (auto simp: velocitySolve_pair_def impulse_friction_pass_def trigger_pair_def Let_def
      CollisionResolver_resolve_def
      intro!: Option.bind_cong split: option.splits)

lemma forEach_velocity_passes:
  assumes "same_triggers h0 h"
  shows "forEach (\<lambda>h kv. velocitySolve_pair c h (snd kv)) h
           (filter (\<lambda>kv. \<not> trigger_pair h0 (snd kv)) current) =
         forEach (\<lambda>h kv. impulse_friction_pass c h (snd kv)) h
           (filter (\<lambda>kv. \<not> trigger_pair h0 (snd kv)) current)"
  using assms
proof (induction current arbitrary: h)
  case Nil show ?case by simp
next
  case (Cons kv current)
  show ?case
  proof (cases "trigger_pair h0 (snd kv)")
    case True then show ?thesis using Cons.IH [OF Cons.prems] by simp
  next
    case False
    then have n: "\<not> trigger_pair h (snd kv)"
      using same_triggers_pair [OF Cons.prems] by simp
    show ?thesis
    proof (cases "velocitySolve_pair c h (snd kv)")
      case None
      with False n show ?thesis by (simp add: velocitySolve_pair_pass [symmetric])
    next
      case (Some h')
      from velocitySolve_pair_triggers [OF Some] Cons.prems
      have "same_triggers h0 h'" by (blast intro: same_triggers_trans)
      from Cons.IH [OF this] False Some n show ?thesis
        by (simp add: velocitySolve_pair_pass [symmetric])
    qed
  qed
qed

lemma velocitySolver_passes:
  "velocitySolver c current h =
   forEach (\<lambda>h kv. impulse_friction_pass c h (snd kv)) h
     (filter (\<lambda>kv. \<not> trigger_pair h (snd kv)) current)"
proof -
  have "velocitySolver c current h =
        forEach (\<lambda>h kv. velocitySolve_pair c h (snd kv)) h
          (filter (\<lambda>kv. \<not> trigger_pair h (snd kv)) current)"
    using velocitySolver_skips_triggers [of c current h] by (simp add: velocitySolver_def)
  also have "\<dots> = forEach (\<lambda>h kv. impulse_friction_pass c h (snd kv)) h
          (filter (\<lambda>kv. \<not> trigger_pair h (snd kv)) current)"
    by (rule forEach_velocity_passes) (rule same_triggers_refl)
  finally show ?thesis .
qed


text \<open>
  C9. A fixed step does not depend on \<open>VELOCITY_ITERATIONS\<close>: with any other value of the
  constant it returns the same manager, store and callbacks. When the phases before the
  velocity solver return, with the collisions \<open>current\<close> from the narrow phase and the
  store \<open>h_solved\<close> from the position solver, the keys of \<open>current\<close> are distinct, and the step
  is one run over \<open>current\<close> without its trigger pairs, with one impulse and friction pass
  for each pair left, followed by the callbacks.
\<close>

theorem VELOCITY_ITERATIONS_no_effect:
  "PhysicsManager_fixedUpdate (c\<lparr>VELOCITY_ITERATIONS := n\<rparr>) dt m h = PhysicsManager_fixedUpdate c dt m h \<and>
   (updateBoundsAll m (integrateBodies c dt m h) = Some h_bounds \<longrightarrow>
    forEach narrowPhase_pair ([], updateCollisionStates m h_bounds)
      (potentialPairs (filter (\<lambda>k. enabled (colliderObjs (updateCollisionStates m h_bounds) k)) (colliders m)))
      = Some (current, h_narrow) \<longrightarrow>
    positionSolver c m current h_narrow = Some h_solved \<longrightarrow>
      distinct (map fst current) \<and>
      PhysicsManager_fixedUpdate (c\<lparr>VELOCITY_ITERATIONS := n\<rparr>) dt m h =
        map_option (\<lambda>h_final. (m\<lparr>collisionPairs := current\<rparr>, h_final, dispatchCollisionEvents m h_final current))
          (forEach (\<lambda>h kv. impulse_friction_pass c h (snd kv)) h_solved
             (filter (\<lambda>kv. \<not> trigger_pair h_solved (snd kv)) current)))"
proof -
  have e: "PhysicsManager_fixedUpdate (c\<lparr>VELOCITY_ITERATIONS := n\<rparr>) dt m h = PhysicsManager_fixedUpdate c dt m h"
    unfolding PhysicsManager_fixedUpdate_def solver_VELOCITY_ITERATIONS by (rule refl)
  have r: "distinct (map fst current) \<and>
      PhysicsManager_fixedUpdate (c\<lparr>VELOCITY_ITERATIONS := n\<rparr>) dt m h =
        map_option (\<lambda>h_final. (m\<lparr>collisionPairs := current\<rparr>, h_final, dispatchCollisionEvents m h_final current))
          (forEach (\<lambda>h kv. impulse_friction_pass c h (snd kv)) h_solved
             (filter (\<lambda>kv. \<not> trigger_pair h_solved (snd kv)) current))"
    if u: "updateBoundsAll m (integrateBodies c dt m h) = Some h_bounds"
      and np: "forEach narrowPhase_pair ([], updateCollisionStates m h_bounds)
        (potentialPairs (filter (\<lambda>k. enabled (colliderObjs (updateCollisionStates m h_bounds) k)) (colliders m)))
        = Some (current, h_narrow)"
      and ps: "positionSolver c m current h_narrow = Some h_solved"
  proof -
    have "distinct (map fst current)"
      using narrowPhase_distinct [OF np] by simp
    moreover have "PhysicsManager_fixedUpdate c dt m h =
        map_option (\<lambda>h_final. (m\<lparr>collisionPairs := current\<rparr>, h_final, dispatchCollisionEvents m h_final current))
          (velocitySolver c current h_solved)"
      by (rule fixedUpdate_phases [OF u np ps])
    ultimately show ?thesis
      by (simp only: e velocitySolver_passes [of c current h_solved])
  qed
  from e r show ?thesis by blast
qed

section \<open>A box that falls through a trigger zone onto a floor\<close>

text \<open>
  The first fixed step of the small world with a timestep of 1/100, phase by phase. The box
  moves from (-3/100, 4/25) to (0, 1/5), where it overlaps the trigger zone and is 7/50
  deep in the floor. The four iterations of the position solver lift it to (0, 1901/15625).
  The pass of the velocity solver detects the pair on the bounds of the last iteration,
  lifts the box to (0, 3559/31250), and impulse and friction turn its velocity from (3, 4)
  to (27/25, -4/5).
\<close>

lemma root_worldPosition:
  "parent (transform (objects h g)) = None \<Longrightarrow>
   Transform_getWorldPosition h g = Some (position (transform (objects h g)))"
  by (simp add: Transform_getWorldPosition_def Transform_updateWorldTransform.simps)

lemma drop_manager_lists:
  "colliders drop_manager = [2, 3, 4]" "rigidbodies drop_manager = [3, 4]"
  by (simp_all add: drop_manager_def registerCollider_def registerRigidbody_def PhysicsManager_new_def)

lemma drop_integrate:
  "integrateBodies PhysicsConstants_default (1 / 100) drop_manager
     (drop_world (Vector2 (- (3 / 100)) (4 / 25)) (Vector2 3 4) None False) =
   drop_world (Vector2 0 (1 / 5)) (Vector2 3 4) None False"
proof -
  let ?h = "drop_world (Vector2 (- (3 / 100)) (4 / 25)) (Vector2 3 4) None False"
  have s: "RigidBody_fixedUpdate PhysicsConstants_default (1 / 100) ?h 3 =
           drop_world (Vector2 0 (1 / 5)) (Vector2 3 4) None False"
    by (simp add: RigidBody_fixedUpdate_def Let_def drop_world_def RigidBody_new_def
        RigidBody_inverseMass_def RigidBody_updateSleep_def PhysicsConstants_default_def
        Vector2_multiply_def Vector2_add_def Vector2_zero_def Vector2_lengthSquared_def
        len34 Transform_translate_def Transform_rotate_def Transform_new_def
        fun_eq_iff)
  have b4: "bodyType (bodies (drop_world (Vector2 0 (1 / 5)) (Vector2 3 4) None False) 4) = STATIC"
    by (simp add: drop_world_def)
  have e: "enabled (bodies ?h 3)" "bodyType (bodies ?h 3) = DYNAMIC" "\<not> isSleeping (bodies ?h 3)"
    by (simp_all add: drop_world_def RigidBody_new_def)
  show ?thesis
    by (simp add: integrateBodies_def drop_manager_lists e s b4)
qed

lemma drop_updateBoundsAll:
  "updateBoundsAll drop_manager (drop_world p v cached t) = Some (drop_world p v (Some p) t)"
  by (cases p)
     (simp add: updateBoundsAll_def drop_manager_lists drop_world_def drop_collider_def
      Collider_updateBounds_def Collider_computeBounds_def Collider_getWorldPosition_def
      Shape_computeBounds_def root_worldPosition Transform_new_def GameObject_new_def
      Vector2_zero_def Vector2_add_def Vector2_multiply_def Let_def fun_eq_iff)

lemma drop_updateCollisionStates:
  "updateCollisionStates drop_manager (drop_world p v cached False) = drop_world p v cached False"
  by (simp add: updateCollisionStates_def drop_manager_lists drop_world_def drop_collider_def
      Collider_updateCollisionState_def fun_eq_iff)

lemma drop_pairs:
  "potentialPairs (filter (\<lambda>k. enabled (colliderObjs (drop_world p v cached t) k)) (colliders drop_manager))
     = [(2, 3), (2, 4), (3, 4)]"
  by (simp add: drop_manager_lists drop_world_def drop_collider_def)

lemma drop_narrowPhase:
  "forEach narrowPhase_pair ([], drop_world p v (Some (Vector2 0 (1 / 5))) False) [(2, 3), (2, 4), (3, 4)] =
     Some (drop_current, drop_world p v (Some (Vector2 0 (1 / 5))) True)"
  by (simp add: narrowPhase_pair_def Let_def drop_world_def drop_collider_def
      Collider_getBounds_def aabbOverlap_def detect_def testAABB_def testAABB_bounds_def
      Vector2_new_def Vector2_multiply_def collisionPairKey_def Collider_addCollision_def
      drop_current_def drop_info23_def drop_info34_def fun_eq_iff insert_commute)

lemma drop_detect34:
  assumes "3 / 50 < k" and "k < 2"
  shows "detect (drop_world p v (Some (Vector2 0 k)) t) 3 4 =
     Some (Some (drop_info34 k), drop_world p v (Some (Vector2 0 k)) t)"
  using assms
  by (simp add: drop_world_def drop_collider_def
      Collider_getBounds_def detect_def testAABB_def testAABB_bounds_def
      Vector2_new_def Vector2_multiply_def drop_info34_def Let_def)

lemma drop_trigger23: "trigger_pair (drop_world p v cached t) drop_info23"
  by (simp add: trigger_pair_def drop_world_def drop_collider_def drop_info23_def)

lemma drop_solid34: "\<not> trigger_pair (drop_world p v cached t) (drop_info34 k)"
  by (simp add: trigger_pair_def drop_world_def drop_collider_def drop_info34_def)

lemma drop_bodies34:
  "Collider_getRigidBody (drop_world p v cached t) 3 = Some 3"
  "Collider_getRigidBody (drop_world p v cached t) 4 = Some 4"
  by (simp_all add: Collider_getRigidBody_def drop_world_def drop_collider_def)

lemma drop_body_fields:
  "velocity (bodies (drop_world p v cached t) 3) = v"
  "velocity (bodies (drop_world p v cached t) 4) = Vector2 0 0"
  "RigidBody_inverseMass (bodies (drop_world p v cached t) 3) = 1"
  "RigidBody_inverseMass (bodies (drop_world p v cached t) 4) = 0"
  "bodyType (bodies (drop_world p v cached t) 3) = DYNAMIC"
  "bodyType (bodies (drop_world p v cached t) 4) = STATIC"
  "gameObject (bodies (drop_world p v cached t) 3) = Some 3"
  "position (transform (objects (drop_world p v cached t) 3)) = p"
  by (simp_all add: drop_world_def RigidBody_new_def RigidBody_inverseMass_def Vector2_zero_def)

lemma drop_material_fields:
  "restitution (material (colliderObjs (drop_world p v cached t) 3)) = 1 / 5"
  "restitution (material (colliderObjs (drop_world p v cached t) 4)) = 1 / 5"
  "friction (material (colliderObjs (drop_world p v cached t) 3)) = 2 / 5"
  "friction (material (colliderObjs (drop_world p v cached t) 4)) = 2 / 5"
  by (simp_all add: drop_world_def drop_collider_def PhysicsMaterial_default_def PhysicsMaterial_new_def)

lemma drop_set_velocity:
  "1 / 100 < Vector2_lengthSquared w \<Longrightarrow>
   Heap_set_velocity (drop_world p v cached t) 3 w = drop_world p w cached t"
  by (simp add: Heap_set_velocity_def RigidBody_set_velocity_def RigidBody_wakeUp_def
      Let_def drop_world_def RigidBody_new_def fun_eq_iff)

lemma drop_set_position:
  "Transform_set_position (drop_world p v cached t) 3 q = drop_world q v cached t"
  by (simp add: Transform_set_position_def drop_world_def fun_eq_iff)

lemma drop_correction:
  assumes "11 / 100 < k"
  shows "resolvePositionalCorrection PhysicsConstants_default (drop_world (Vector2 0 q) v cached t)
           (drop_info34 k) 3 4 =
         drop_world (Vector2 0 (q - (k - 11 / 100) * 2 / 5)) v cached t"
proof -
  have i: "info_penetration (drop_info34 k) = k - 3 / 50" "info_normal (drop_info34 k) = Vector2 0 1"
    by (simp_all add: drop_info34_def)
  have c: "CORRECTION_PERCENT PhysicsConstants_default = 2 / 5"
    "CORRECTION_SLOP PhysicsConstants_default = 1 / 20"
    by (simp_all add: PhysicsConstants_default_def)
  have d: "max (k - 3 / 50 - 1 / 20) 0 = k - 11 / 100" "\<not> k - 11 / 100 \<le> 0"
    using assms by simp_all
  show ?thesis
    unfolding resolvePositionalCorrection_def i c d Let_def drop_body_fields
    using assms
    by (simp add: drop_set_position drop_body_fields Vector2_subtract_def Vector2_multiply_def)
qed

lemma drop_info34_fields:
  "colliderA (drop_info34 k) = 3" "colliderB (drop_info34 k) = 4"
  "info_normal (drop_info34 k) = Vector2 0 1"
  by (simp_all add: drop_info34_def)

lemma drop_positionOnly:
  assumes "11 / 100 < k"
  shows "CollisionResolver_resolvePositionOnly PhysicsConstants_default
           (drop_world (Vector2 0 q) v cached t) (drop_info34 k) =
         drop_world (Vector2 0 (q - (k - 11 / 100) * 2 / 5)) v cached t"
  by (simp add: CollisionResolver_resolvePositionOnly_def drop_info34_fields drop_bodies34
      drop_body_fields drop_correction [OF assms])

lemma drop_position_iteration:
  assumes "11 / 100 < k" and "k < 2"
  shows "Option.bind (updateBoundsAll drop_manager (drop_world (Vector2 0 k) v cached t))
           (\<lambda>h1. forEach (\<lambda>h kv. positionSolve_pair PhysicsConstants_default h (snd kv)) h1 drop_current) =
         Some (drop_world (Vector2 0 (k - (k - 11 / 100) * 2 / 5)) v (Some (Vector2 0 k)) t)"
proof -
  let ?h = "drop_world (Vector2 0 k) v (Some (Vector2 0 k)) t"
  have d: "detect ?h 3 4 = Some (Some (drop_info34 k), ?h)"
    using assms by (intro drop_detect34) simp_all
  have p34: "positionSolve_pair PhysicsConstants_default ?h (drop_info34 (1 / 5)) =
      Some (drop_world (Vector2 0 (k - (k - 11 / 100) * 2 / 5)) v (Some (Vector2 0 k)) t)"
    using drop_solid34 [of "Vector2 0 k" v "Some (Vector2 0 k)" t "1 / 5"]
    by (simp add: positionSolve_pair_def Let_def trigger_pair_def drop_info34_fields d
        drop_positionOnly [OF assms(1)])
  show ?thesis
    by (simp add: drop_updateBoundsAll drop_current_def positionSolve_pair_trigger drop_trigger23 p34)
qed

lemma drop_positionSolver:
  "positionSolver PhysicsConstants_default drop_manager drop_current
     (drop_world (Vector2 0 (1 / 5)) v cached t) =
   Some (drop_world (Vector2 0 (1901 / 15625)) v (Some (Vector2 0 (809 / 6250))) t)"
proof -
  have n: "[0 ..< POSITION_ITERATIONS PhysicsConstants_default] = [0, 1, 2, 3]"
    by (simp add: PhysicsConstants_default_def upt_rec)
  have s1: "Option.bind (updateBoundsAll drop_manager (drop_world (Vector2 0 (1 / 5)) v cached t))
           (\<lambda>h1. forEach (\<lambda>h kv. positionSolve_pair PhysicsConstants_default h (snd kv)) h1 drop_current) =
         Some (drop_world (Vector2 0 (41 / 250)) v (Some (Vector2 0 (1 / 5))) t)"
    using drop_position_iteration [of "1 / 5" v cached t] by simp
  have s2: "Option.bind (updateBoundsAll drop_manager
             (drop_world (Vector2 0 (41 / 250)) v (Some (Vector2 0 (1 / 5))) t))
           (\<lambda>h1. forEach (\<lambda>h kv. positionSolve_pair PhysicsConstants_default h (snd kv)) h1 drop_current) =
         Some (drop_world (Vector2 0 (89 / 625)) v (Some (Vector2 0 (41 / 250))) t)"
    using drop_position_iteration [of "41 / 250" v "Some (Vector2 0 (1 / 5))" t] by simp
  have s3: "Option.bind (updateBoundsAll drop_manager
             (drop_world (Vector2 0 (89 / 625)) v (Some (Vector2 0 (41 / 250))) t))
           (\<lambda>h1. forEach (\<lambda>h kv. positionSolve_pair PhysicsConstants_default h (snd kv)) h1 drop_current) =
         Some (drop_world (Vector2 0 (809 / 6250)) v (Some (Vector2 0 (89 / 625))) t)"
    using drop_position_iteration [of "89 / 625" v "Some (Vector2 0 (41 / 250))" t] by simp
  have s4: "Option.bind (updateBoundsAll drop_manager
             (drop_world (Vector2 0 (809 / 6250)) v (Some (Vector2 0 (89 / 625))) t))
           (\<lambda>h1. forEach (\<lambda>h kv. positionSolve_pair PhysicsConstants_default h (snd kv)) h1 drop_current) =
         Some (drop_world (Vector2 0 (1901 / 15625)) v (Some (Vector2 0 (809 / 6250))) t)"
    using drop_position_iteration [of "809 / 6250" v "Some (Vector2 0 (89 / 625))" t] by simp
  show ?thesis
    unfolding positionSolver_def n by (simp only: forEach.simps s1 s2 s3 s4 Option.bind.simps)
qed

lemma normalize_x_axis_neg: "v < 0 \<Longrightarrow> Vector2_normalize (Vector2 v 0) = Vector2 (- 1) 0"
  by (simp add: Vector2_normalize_def Vector2_length_x_axis Vector2_divide_def)

lemma drop_friction_coefficient:
  "sqrt (friction (material (colliderObjs (drop_world p v cached t) 3)) *
         friction (material (colliderObjs (drop_world p v cached t) 4))) = 2 / 5"
  unfolding drop_material_fields by (rule real_sqrt_unique) (simp_all add: power2_eq_square)

lemma drop_resolveFriction:
  "resolveFriction (drop_world p (Vector2 3 (- (4 / 5))) cached t) (drop_info34 k) 3 4 (24 / 5) =
     drop_world p (Vector2 (27 / 25) (- (4 / 5))) cached t"
  by (simp add: resolveFriction_def Let_def drop_info34_fields drop_body_fields
      drop_friction_coefficient Vector2_subtract_def Vector2_dot_def Vector2_multiply_def
      Vector2_add_def Vector2_lengthSquared_def normalize_x_axis_neg drop_set_velocity)

lemma drop_resolveImpulse:
  "resolveImpulse (drop_world p (Vector2 3 4) cached t) (drop_info34 k) 3 4 =
     drop_world p (Vector2 (27 / 25) (- (4 / 5))) cached t"
  by (simp add: resolveImpulse_def Let_def drop_info34_fields drop_body_fields
      drop_material_fields(1,2) Vector2_subtract_def Vector2_dot_def Vector2_multiply_def
      Vector2_add_def Vector2_lengthSquared_def drop_set_velocity drop_resolveFriction)

lemma drop_pass:
  "impulse_friction_pass PhysicsConstants_default
     (drop_world (Vector2 0 (1901 / 15625)) (Vector2 3 4) (Some (Vector2 0 (809 / 6250))) t)
     (drop_info34 (1 / 5)) =
   Some (drop_world (Vector2 0 (3559 / 31250)) (Vector2 (27 / 25) (- (4 / 5)))
           (Some (Vector2 0 (809 / 6250))) t)"
proof -
  let ?h = "drop_world (Vector2 0 (1901 / 15625)) (Vector2 3 4) (Some (Vector2 0 (809 / 6250))) t"
  have d: "detect ?h 3 4 = Some (Some (drop_info34 (809 / 6250)), ?h)"
    by (intro drop_detect34) simp_all
  have c: "resolvePositionalCorrection PhysicsConstants_default ?h (drop_info34 (809 / 6250)) 3 4 =
      drop_world (Vector2 0 (3559 / 31250)) (Vector2 3 4) (Some (Vector2 0 (809 / 6250))) t"
    using drop_correction [of "809 / 6250" "1901 / 15625" "Vector2 3 4" "Some (Vector2 0 (809 / 6250))" t]
    by simp
  show ?thesis
    by (simp add: impulse_friction_pass_def drop_info34_fields d drop_bodies34 drop_body_fields
        c drop_resolveImpulse)
qed

lemma drop_velocitySolver:
  "velocitySolver PhysicsConstants_default drop_current
     (drop_world (Vector2 0 (1901 / 15625)) (Vector2 3 4) (Some (Vector2 0 (809 / 6250))) t) =
   Some (drop_world (Vector2 0 (3559 / 31250)) (Vector2 (27 / 25) (- (4 / 5)))
           (Some (Vector2 0 (809 / 6250))) t)"
proof -
  let ?h = "drop_world (Vector2 0 (1901 / 15625)) (Vector2 3 4) (Some (Vector2 0 (809 / 6250))) t"
  have v34: "velocitySolve_pair PhysicsConstants_default ?h (drop_info34 (1 / 5)) =
      Some (drop_world (Vector2 0 (3559 / 31250)) (Vector2 (27 / 25) (- (4 / 5)))
              (Some (Vector2 0 (809 / 6250))) t)"
    using drop_pass [of t] by (simp add: velocitySolve_pair_pass [OF drop_solid34])
  show ?thesis
    by (simp add: velocitySolver_def drop_current_def velocitySolve_pair_trigger drop_trigger23 v34)
qed

lemma drop_dispatch_pair23:
  "dispatch_pair (drop_world p v cached True) drop_info23 = [OnTriggerEnter 2 3, OnTriggerEnter 3 2]"
  by (simp add: dispatch_pair_def dispatch_side_def Let_def drop_info23_def drop_world_def
      drop_collider_def Collider_isCollisionEnter_def)

lemma drop_dispatch_exit:
  "dispatch_exit (drop_world p v cached t) a b = []"
  by (simp add: dispatch_exit_def Collider_isCollisionExit_def drop_world_def drop_collider_def
      BoxCollider_new_def Collider_new_def)

lemma drop_dispatch:
  "dispatchCollisionEvents drop_manager (drop_world p v cached True) drop_current = drop_events"
proof -
  have "dispatch_pair (drop_world p v cached True) (drop_info34 (1 / 5)) = drop 2 drop_events"
    by (simp add: dispatch_pair_def dispatch_side_def Let_def drop_info34_def drop_world_def
        drop_collider_def Collider_isCollisionEnter_def Vector2_multiply_def drop_events_def)
  then show ?thesis
    by (simp add: dispatchCollisionEvents_def Let_def drop_current_def drop_dispatch_pair23
        drop_dispatch_exit drop_events_def)
qed

lemma drop_solid_pairs:
  "filter (\<lambda>kv. \<not> trigger_pair (drop_world p v cached t) (snd kv)) drop_current =
     [((3, 4), drop_info34 (1 / 5))]"
  by (simp add: drop_current_def drop_trigger23 drop_solid34)

lemma drop_phases:
  "updateBoundsAll drop_manager
     (integrateBodies PhysicsConstants_default (1 / 100) drop_manager
        (drop_world (Vector2 (- (3 / 100)) (4 / 25)) (Vector2 3 4) None False)) =
     Some (drop_world (Vector2 0 (1 / 5)) (Vector2 3 4) (Some (Vector2 0 (1 / 5))) False)"
  "forEach narrowPhase_pair
     ([], updateCollisionStates drop_manager
            (drop_world (Vector2 0 (1 / 5)) (Vector2 3 4) (Some (Vector2 0 (1 / 5))) False))
     (potentialPairs (filter (\<lambda>k. enabled (colliderObjs (updateCollisionStates drop_manager
            (drop_world (Vector2 0 (1 / 5)) (Vector2 3 4) (Some (Vector2 0 (1 / 5))) False)) k))
         (colliders drop_manager))) =
     Some (drop_current, drop_world (Vector2 0 (1 / 5)) (Vector2 3 4) (Some (Vector2 0 (1 / 5))) True)"
  by (simp_all only: drop_integrate drop_updateBoundsAll drop_updateCollisionStates drop_pairs
      drop_narrowPhase)


theorem trigger_pairs_skipped_witness:
  "trigger_pair (drop_world (Vector2 0 (1 / 5)) (Vector2 3 4) (Some (Vector2 0 (1 / 5))) True) drop_info23 \<and>
   positionSolve_pair PhysicsConstants_default
     (drop_world (Vector2 0 (1 / 5)) (Vector2 3 4) (Some (Vector2 0 (1 / 5))) True) drop_info23 =
     Some (drop_world (Vector2 0 (1 / 5)) (Vector2 3 4) (Some (Vector2 0 (1 / 5))) True) \<and>
   velocitySolve_pair PhysicsConstants_default
     (drop_world (Vector2 0 (1 / 5)) (Vector2 3 4) (Some (Vector2 0 (1 / 5))) True) drop_info23 =
     Some (drop_world (Vector2 0 (1 / 5)) (Vector2 3 4) (Some (Vector2 0 (1 / 5))) True) \<and>
   positionSolver PhysicsConstants_default drop_manager [((3, 4), drop_info34 (1 / 5))]
     (drop_world (Vector2 0 (1 / 5)) (Vector2 3 4) (Some (Vector2 0 (1 / 5))) True) =
     Some (drop_world (Vector2 0 (1901 / 15625)) (Vector2 3 4) (Some (Vector2 0 (809 / 6250))) True) \<and>
   PhysicsManager_fixedUpdate PhysicsConstants_default (1 / 100) drop_manager
     (drop_world (Vector2 (- (3 / 100)) (4 / 25)) (Vector2 3 4) None False) =
     Some (drop_manager\<lparr>collisionPairs := drop_current\<rparr>,
           drop_world (Vector2 0 (3559 / 31250)) (Vector2 (27 / 25) (- (4 / 5)))
             (Some (Vector2 0 (809 / 6250))) True,
           drop_events) \<and>
   velocitySolver PhysicsConstants_default [((2, 3), drop_info23)]
     (drop_world (Vector2 0 (1 / 5)) (Vector2 3 4) (Some (Vector2 0 (1 / 5))) True) =
     Some (drop_world (Vector2 0 (1 / 5)) (Vector2 3 4) (Some (Vector2 0 (1 / 5))) True) \<and>
   dispatch_pair (drop_world (Vector2 0 (1 / 5)) (Vector2 3 4) (Some (Vector2 0 (1 / 5))) True) drop_info23 =
     [OnTriggerEnter 2 3, OnTriggerEnter 3 2] \<and>
   list_all is_trigger_event
     (dispatch_pair (drop_world (Vector2 0 (1 / 5)) (Vector2 3 4) (Some (Vector2 0 (1 / 5))) True) drop_info23)"
proof -
  let ?start = "drop_world (Vector2 (- (3 / 100)) (4 / 25)) (Vector2 3 4) None False"
  let ?bounded = "drop_world (Vector2 0 (1 / 5)) (Vector2 3 4) (Some (Vector2 0 (1 / 5))) False"
  let ?narrow = "drop_world (Vector2 0 (1 / 5)) (Vector2 3 4) (Some (Vector2 0 (1 / 5))) True"
  let ?solved = "drop_world (Vector2 0 (1901 / 15625)) (Vector2 3 4) (Some (Vector2 0 (809 / 6250))) True"
  let ?final = "drop_world (Vector2 0 (3559 / 31250)) (Vector2 (27 / 25) (- (4 / 5)))
               (Some (Vector2 0 (809 / 6250))) True"
  have t: "trigger_pair ?narrow drop_info23"
    by (rule drop_trigger23)
  have a: "list_all (\<lambda>kv. trigger_pair ?narrow (snd kv)) [((2, 3), drop_info23)]"
    by (simp add: drop_trigger23)
  note step = trigger_pairs_skipped [OF t, where c = PhysicsConstants_default and m = drop_manager
      and current = drop_current and dt = "1 / 100" and h_start = ?start and h_bounds = ?bounded]
  have t6: "trigger_pair ?solved drop_info23"
    by (rule drop_trigger23)
  note after = trigger_pairs_skipped [OF t6, where c = PhysicsConstants_default
      and current = drop_current]
  note alone = trigger_pairs_skipped [OF t, where c = PhysicsConstants_default and m = drop_manager
      and current = "[((2, 3), drop_info23)]"]
  have p: "positionSolve_pair PhysicsConstants_default ?narrow drop_info23 = Some ?narrow"
    and v: "velocitySolve_pair PhysicsConstants_default ?narrow drop_info23 = Some ?narrow"
    and d: "list_all is_trigger_event (dispatch_pair ?narrow drop_info23)"
    using step by blast+
  have "positionSolver PhysicsConstants_default drop_manager drop_current ?narrow =
      positionSolver PhysicsConstants_default drop_manager
        (filter (\<lambda>kv. \<not> trigger_pair ?narrow (snd kv)) drop_current) ?narrow"
    using step by blast
  then have ps: "positionSolver PhysicsConstants_default drop_manager [((3, 4), drop_info34 (1 / 5))] ?narrow =
      Some ?solved"
    by (simp only: drop_solid_pairs drop_positionSolver)
  have "velocitySolver PhysicsConstants_default drop_current ?solved =
      velocitySolver PhysicsConstants_default
        (filter (\<lambda>kv. \<not> trigger_pair ?solved (snd kv)) drop_current) ?solved"
    using after by blast
  then have vs: "velocitySolver PhysicsConstants_default [((3, 4), drop_info34 (1 / 5))] ?solved = Some ?final"
    by (simp only: drop_solid_pairs drop_velocitySolver)
  have "PhysicsManager_fixedUpdate PhysicsConstants_default (1 / 100) drop_manager ?start =
      Option.bind (positionSolver PhysicsConstants_default drop_manager
                     (filter (\<lambda>kv. \<not> trigger_pair ?narrow (snd kv)) drop_current) ?narrow) (\<lambda>h_solved.
        map_option (\<lambda>h_final. (drop_manager\<lparr>collisionPairs := drop_current\<rparr>, h_final,
                           dispatchCollisionEvents drop_manager h_final drop_current))
          (velocitySolver PhysicsConstants_default
             (filter (\<lambda>kv. \<not> trigger_pair ?narrow (snd kv)) drop_current) h_solved))"
    using step drop_phases by blast
  then have f: "PhysicsManager_fixedUpdate PhysicsConstants_default (1 / 100) drop_manager ?start =
      Some (drop_manager\<lparr>collisionPairs := drop_current\<rparr>, ?final, drop_events)"
    by (simp add: drop_solid_pairs ps vs drop_dispatch)
  have va: "velocitySolver PhysicsConstants_default [((2, 3), drop_info23)] ?narrow = Some ?narrow"
    using alone a by blast
  from t p v ps f va d show ?thesis
    by (simp only: drop_dispatch_pair23)
qed

text \<open>
  The claim as stated has the positions and velocities of both bodies of a trigger pair
  unchanged by the solver phases. In the first step of the small world the narrow phase
  detects the pair of the trigger zone and the box; the box is also in the floor, and the
  solver phases move it from (0, 1/5) to (0, 3559/31250) and turn its velocity from (3, 4)
  to (27/25, -4/5).
\<close>

theorem trigger_pair_body_moved_counterexample:
  "forEach narrowPhase_pair
     ([], drop_world (Vector2 0 (1 / 5)) (Vector2 3 4) (Some (Vector2 0 (1 / 5))) False)
     [(2, 3), (2, 4), (3, 4)] =
     Some (drop_current, drop_world (Vector2 0 (1 / 5)) (Vector2 3 4) (Some (Vector2 0 (1 / 5))) True) \<and>
   trigger_pair (drop_world (Vector2 0 (1 / 5)) (Vector2 3 4) (Some (Vector2 0 (1 / 5))) True) drop_info23 \<and>
   colliderB drop_info23 = 3 \<and>
   Collider_getRigidBody (drop_world (Vector2 0 (1 / 5)) (Vector2 3 4) (Some (Vector2 0 (1 / 5))) True) 3 =
     Some 3 \<and>
   gameObject (bodies (drop_world (Vector2 0 (1 / 5)) (Vector2 3 4) (Some (Vector2 0 (1 / 5))) True) 3) =
     Some 3 \<and>
   positionSolver PhysicsConstants_default drop_manager drop_current
     (drop_world (Vector2 0 (1 / 5)) (Vector2 3 4) (Some (Vector2 0 (1 / 5))) True) =
     Some (drop_world (Vector2 0 (1901 / 15625)) (Vector2 3 4) (Some (Vector2 0 (809 / 6250))) True) \<and>
   velocitySolver PhysicsConstants_default drop_current
     (drop_world (Vector2 0 (1901 / 15625)) (Vector2 3 4) (Some (Vector2 0 (809 / 6250))) True) =
     Some (drop_world (Vector2 0 (3559 / 31250)) (Vector2 (27 / 25) (- (4 / 5)))
             (Some (Vector2 0 (809 / 6250))) True) \<and>
   position (transform (objects
     (drop_world (Vector2 0 (1 / 5)) (Vector2 3 4) (Some (Vector2 0 (1 / 5))) True) 3)) =
     Vector2 0 (1 / 5) \<and>
   position (transform (objects
     (drop_world (Vector2 0 (3559 / 31250)) (Vector2 (27 / 25) (- (4 / 5)))
        (Some (Vector2 0 (809 / 6250))) True) 3)) =
     Vector2 0 (3559 / 31250) \<and>
   velocity (bodies (drop_world (Vector2 0 (1 / 5)) (Vector2 3 4) (Some (Vector2 0 (1 / 5))) True) 3) =
     Vector2 3 4 \<and>
   velocity (bodies
     (drop_world (Vector2 0 (3559 / 31250)) (Vector2 (27 / 25) (- (4 / 5)))
        (Some (Vector2 0 (809 / 6250))) True) 3) =
     Vector2 (27 / 25) (- (4 / 5))"
  by (intro conjI drop_narrowPhase drop_trigger23 drop_bodies34 drop_positionSolver
      drop_velocitySolver drop_body_fields) (simp add: drop_info23_def)


theorem VELOCITY_ITERATIONS_no_effect_witness:
  "PhysicsManager_fixedUpdate (PhysicsConstants_default\<lparr>VELOCITY_ITERATIONS := 1\<rparr>) (1 / 100)
     drop_manager (drop_world (Vector2 (- (3 / 100)) (4 / 25)) (Vector2 3 4) None False) =
     Some (drop_manager\<lparr>collisionPairs := drop_current\<rparr>,
           drop_world (Vector2 0 (3559 / 31250)) (Vector2 (27 / 25) (- (4 / 5)))
             (Some (Vector2 0 (809 / 6250))) True,
           drop_events) \<and>
   PhysicsManager_fixedUpdate PhysicsConstants_default (1 / 100)
     drop_manager (drop_world (Vector2 (- (3 / 100)) (4 / 25)) (Vector2 3 4) None False) =
     Some (drop_manager\<lparr>collisionPairs := drop_current\<rparr>,
           drop_world (Vector2 0 (3559 / 31250)) (Vector2 (27 / 25) (- (4 / 5)))
             (Some (Vector2 0 (809 / 6250))) True,
           drop_events) \<and>
   distinct (map fst drop_current)"
proof -
  let ?start = "drop_world (Vector2 (- (3 / 100)) (4 / 25)) (Vector2 3 4) None False"
  let ?bounded = "drop_world (Vector2 0 (1 / 5)) (Vector2 3 4) (Some (Vector2 0 (1 / 5))) False"
  let ?narrow = "drop_world (Vector2 0 (1 / 5)) (Vector2 3 4) (Some (Vector2 0 (1 / 5))) True"
  let ?solved = "drop_world (Vector2 0 (1901 / 15625)) (Vector2 3 4) (Some (Vector2 0 (809 / 6250))) True"
  have ps: "positionSolver PhysicsConstants_default drop_manager drop_current ?narrow = Some ?solved"
    by (rule drop_positionSolver)
  note step = VELOCITY_ITERATIONS_no_effect [where c = PhysicsConstants_default and n = 1 and dt = "1 / 100"
      and m = drop_manager and h = ?start and h_bounds = ?bounded and current = drop_current and h_narrow = ?narrow
      and h_solved = ?solved]
  have e: "PhysicsManager_fixedUpdate (PhysicsConstants_default\<lparr>VELOCITY_ITERATIONS := 1\<rparr>) (1 / 100)
      drop_manager ?start = PhysicsManager_fixedUpdate PhysicsConstants_default (1 / 100) drop_manager ?start"
    using step by blast
  have d: "distinct (map fst drop_current)"
    and r: "PhysicsManager_fixedUpdate (PhysicsConstants_default\<lparr>VELOCITY_ITERATIONS := 1\<rparr>) (1 / 100)
      drop_manager ?start =
      map_option (\<lambda>h_final. (drop_manager\<lparr>collisionPairs := drop_current\<rparr>, h_final,
                         dispatchCollisionEvents drop_manager h_final drop_current))
        (forEach (\<lambda>h kv. impulse_friction_pass PhysicsConstants_default h (snd kv)) ?solved
           (filter (\<lambda>kv. \<not> trigger_pair ?solved (snd kv)) drop_current))"
    using step drop_phases ps by blast+
  have "PhysicsManager_fixedUpdate (PhysicsConstants_default\<lparr>VELOCITY_ITERATIONS := 1\<rparr>) (1 / 100)
      drop_manager ?start =
      Some (drop_manager\<lparr>collisionPairs := drop_current\<rparr>,
            drop_world (Vector2 0 (3559 / 31250)) (Vector2 (27 / 25) (- (4 / 5)))
              (Some (Vector2 0 (809 / 6250))) True, drop_events)"
    unfolding r by (simp add: drop_solid_pairs drop_pass drop_dispatch)
  with e d show ?thesis
    by simp
qed

section \<open>The gravity property of the manager\<close>

lemma gravity_irrelevant_parts:
  "integrateBodies c dt (m\<lparr>gravity := g\<rparr>) h = integrateBodies c dt m h"
  "updateBoundsAll (m\<lparr>gravity := g\<rparr>) h = updateBoundsAll m h"
  "updateCollisionStates (m\<lparr>gravity := g\<rparr>) h = updateCollisionStates m h"
  "positionSolver c (m\<lparr>gravity := g\<rparr>) cur h = positionSolver c m cur h"
  "dispatchCollisionEvents (m\<lparr>gravity := g\<rparr>) h cur = dispatchCollisionEvents m h cur"
  by (simp_all add: integrateBodies_def updateBoundsAll_def updateCollisionStates_def
      positionSolver_def dispatchCollisionEvents_def)

lemma fixedUpdate_gravity:
  "PhysicsManager_fixedUpdate c dt (m\<lparr>gravity := g\<rparr>) h =
     map_option (\<lambda>r. ((fst r)\<lparr>gravity := g\<rparr>, snd r)) (PhysicsManager_fixedUpdate c dt m h)"
  by (simp add: PhysicsManager_fixedUpdate_def gravity_irrelevant_parts Let_def
      split: Option.bind_split)

lemma fixedUpdate_manager:
  "PhysicsManager_fixedUpdate c dt m h = Some r \<Longrightarrow> \<exists>cur. fst r = m\<lparr>collisionPairs := cur\<rparr>"
  by (auto simp: PhysicsManager_fixedUpdate_def Let_def split: Option.bind_splits)

lemma update_loop_exit:
  "\<not> fixedTimestep m \<le> accumulator m \<Longrightarrow> update_loop c m h evs = Some (m, h, evs)"
  by (subst update_loop.simps) simp

lemma update_loop_step:
  "fixedTimestep m \<le> accumulator m \<Longrightarrow>
   update_loop c m h evs =
     Option.bind (PhysicsManager_fixedUpdate c (fixedTimestep m) m h) (\<lambda>r.
       update_loop c ((fst r)\<lparr>accumulator := accumulator (fst r) - fixedTimestep (fst r)\<rparr>)
         (fst (snd r)) (evs @ snd (snd r)))"
  by (subst update_loop.simps) simp

lemma update_loop_gravity_forward:
  assumes "update_loop c m h evs = Some r"
  shows "update_loop c (m\<lparr>gravity := g\<rparr>) h evs = Some ((fst r)\<lparr>gravity := g\<rparr>, snd r)"
proof (rule update_loop.raw_induct
    [where P = "\<lambda>c m h evs r. update_loop c (m\<lparr>gravity := g\<rparr>) h evs = Some ((fst r)\<lparr>gravity := g\<rparr>, snd r)",
     OF _ assms])
  fix loop :: "PhysicsConstants \<Rightarrow> PhysicsManager \<Rightarrow> Heap \<Rightarrow> Event list \<Rightarrow>
      (PhysicsManager \<times> Heap \<times> Event list) option"
  fix c m h evs r
  assume IH: "\<And>c m h evs r. loop c m h evs = Some r \<Longrightarrow>
      update_loop c (m\<lparr>gravity := g\<rparr>) h evs = Some ((fst r)\<lparr>gravity := g\<rparr>, snd r)"
  assume body: "(if fixedTimestep m \<le> accumulator m
      then Option.bind (PhysicsManager_fixedUpdate c (fixedTimestep m) m h) (\<lambda>r.
             loop c ((fst r)\<lparr>accumulator := accumulator (fst r) - fixedTimestep (fst r)\<rparr>)
               (fst (snd r)) (evs @ snd (snd r)))
      else Some (m, h, evs)) = Some r"
  show "update_loop c (m\<lparr>gravity := g\<rparr>) h evs = Some ((fst r)\<lparr>gravity := g\<rparr>, snd r)"
  proof (cases "fixedTimestep m \<le> accumulator m")
    case False
    with body have r: "r = (m, h, evs)" by simp
    show ?thesis using False unfolding r by (simp add: update_loop_exit)
  next
    case True
    with body obtain r1 where
      r1: "PhysicsManager_fixedUpdate c (fixedTimestep m) m h = Some r1"
      and l: "loop c ((fst r1)\<lparr>accumulator := accumulator (fst r1) - fixedTimestep (fst r1)\<rparr>)
                (fst (snd r1)) (evs @ snd (snd r1)) = Some r"
      by (auto split: Option.bind_splits)
    let ?A = "accumulator (fst r1) - fixedTimestep (fst r1)"
    have e: "(fst r1)\<lparr>gravity := g, accumulator := ?A\<rparr> = (fst r1)\<lparr>accumulator := ?A, gravity := g\<rparr>"
      by simp
    have "update_loop c (m\<lparr>gravity := g\<rparr>) h evs =
          update_loop c ((fst r1)\<lparr>gravity := g, accumulator := ?A\<rparr>) (fst (snd r1)) (evs @ snd (snd r1))"
      using True r1 by (simp add: update_loop_step fixedUpdate_gravity)
    also have "\<dots> = update_loop c ((fst r1)\<lparr>accumulator := ?A, gravity := g\<rparr>) (fst (snd r1)) (evs @ snd (snd r1))"
      by (simp only: e)
    also have "\<dots> = Some ((fst r)\<lparr>gravity := g\<rparr>, snd r)"
      by (rule IH [OF l])
    finally show ?thesis .
  qed
qed

lemma update_loop_gravity:
  "update_loop c (m\<lparr>gravity := g\<rparr>) h evs =
     map_option (\<lambda>r. ((fst r)\<lparr>gravity := g\<rparr>, snd r)) (update_loop c m h evs)"
proof (cases "update_loop c m h evs")
  case (Some r)
  then show ?thesis by (simp add: update_loop_gravity_forward)
next
  case None
  show ?thesis
  proof (cases "update_loop c (m\<lparr>gravity := g\<rparr>) h evs")
    case None
    with \<open>update_loop c m h evs = None\<close> show ?thesis by simp
  next
    case (Some r)
    from update_loop_gravity_forward [OF Some, of "gravity m"]
    have "update_loop c m h evs \<noteq> None" by simp
    with None show ?thesis by simp
  qed
qed

lemma update_gravity:
  "PhysicsManager_update c dt (m\<lparr>gravity := g\<rparr>) h =
     map_option (\<lambda>r. ((fst r)\<lparr>gravity := g\<rparr>, snd r)) (PhysicsManager_update c dt m h)"
proof -
  define m2 where "m2 = (if accumulator m + dt > fixedTimestep m * 5
      then m\<lparr>accumulator := fixedTimestep m * 5\<rparr> else m\<lparr>accumulator := accumulator m + dt\<rparr>)"
  have a: "PhysicsManager_update c dt m h = update_loop c m2 h []"
    by (simp add: PhysicsManager_update_def Let_def m2_def)
  have e: "(if accumulator m + dt > fixedTimestep m * 5
      then m\<lparr>gravity := g, accumulator := fixedTimestep m * 5\<rparr>
      else m\<lparr>gravity := g, accumulator := accumulator m + dt\<rparr>) = m2\<lparr>gravity := g\<rparr>"
    by (simp add: m2_def)
  have b: "PhysicsManager_update c dt (m\<lparr>gravity := g\<rparr>) h = update_loop c (m2\<lparr>gravity := g\<rparr>) h []"
    unfolding e [symmetric] by (simp add: PhysicsManager_update_def Let_def)
  show ?thesis unfolding a b by (rule update_loop_gravity)
qed


lemma run_gravity:
  "PhysicsManager_run c dts (m\<lparr>gravity := g\<rparr>) h =
     map_option (\<lambda>r. ((fst r)\<lparr>gravity := g\<rparr>, snd r)) (PhysicsManager_run c dts m h)"
proof (induction dts arbitrary: m h)
  case Nil
  show ?case by simp
next
  case (Cons dt dts)
  show ?case
  proof (cases "PhysicsManager_update c dt m h")
    case None
    then show ?thesis by (simp add: update_gravity)
  next
    case (Some r)
    then show ?thesis
      by (cases "PhysicsManager_run c dts (fst r) (fst (snd r))") (simp_all add: update_gravity Cons.IH)
  qed
qed


text \<open>
  C10. The integrator reads \<open>PhysicsConstants.GRAVITY\<close> and nothing reads the \<open>gravity\<close>
  field of the manager: two runs over the same frames, from managers that differ only in
  \<open>gravity\<close>, end with the same store (velocities and positions included) and make the
  same callbacks, or both do not return.
\<close>

theorem gravity_property_never_read:
  "map_option snd (PhysicsManager_run c dts (m\<lparr>gravity := g1\<rparr>) h) =
   map_option snd (PhysicsManager_run c dts (m\<lparr>gravity := g2\<rparr>) h)"
  by (simp add: run_gravity option.map_comp comp_def)


section \<open>A step of no time\<close>

lemma update_loop_accumulator:
  assumes "update_loop c m h evs = Some r"
  shows "accumulator (fst r) < fixedTimestep (fst r) \<and> fixedTimestep (fst r) = fixedTimestep m"
proof (rule update_loop.raw_induct
    [where P = "\<lambda>c m h evs r. accumulator (fst r) < fixedTimestep (fst r) \<and> fixedTimestep (fst r) = fixedTimestep m",
     OF _ assms])
  fix loop :: "PhysicsConstants \<Rightarrow> PhysicsManager \<Rightarrow> Heap \<Rightarrow> Event list \<Rightarrow>
      (PhysicsManager \<times> Heap \<times> Event list) option"
  fix c m h evs r
  assume IH: "\<And>c m h evs r. loop c m h evs = Some r \<Longrightarrow>
      accumulator (fst r) < fixedTimestep (fst r) \<and> fixedTimestep (fst r) = fixedTimestep m"
  assume body: "(if fixedTimestep m \<le> accumulator m
      then Option.bind (PhysicsManager_fixedUpdate c (fixedTimestep m) m h) (\<lambda>r.
             loop c ((fst r)\<lparr>accumulator := accumulator (fst r) - fixedTimestep (fst r)\<rparr>)
               (fst (snd r)) (evs @ snd (snd r)))
      else Some (m, h, evs)) = Some r"
  show "accumulator (fst r) < fixedTimestep (fst r) \<and> fixedTimestep (fst r) = fixedTimestep m"
  proof (cases "fixedTimestep m \<le> accumulator m")
    case False
    with body have r: "r = (m, h, evs)" by simp
    show ?thesis using False unfolding r by simp
  next
    case True
    with body obtain r1 where
      r1: "PhysicsManager_fixedUpdate c (fixedTimestep m) m h = Some r1"
      and l: "loop c ((fst r1)\<lparr>accumulator := accumulator (fst r1) - fixedTimestep (fst r1)\<rparr>)
                (fst (snd r1)) (evs @ snd (snd r1)) = Some r"
      by (auto split: Option.bind_splits)
    from fixedUpdate_manager [OF r1] have "fixedTimestep (fst r1) = fixedTimestep m" by auto
    with IH [OF l] show ?thesis by simp
  qed
qed

lemma update_accumulator:
  assumes "PhysicsManager_update c dt m h = Some r"
  shows "accumulator (fst r) < fixedTimestep (fst r) \<and> fixedTimestep (fst r) = fixedTimestep m"
proof -
  define m2 where "m2 = (if accumulator m + dt > fixedTimestep m * 5
      then m\<lparr>accumulator := fixedTimestep m * 5\<rparr> else m\<lparr>accumulator := accumulator m + dt\<rparr>)"
  have "PhysicsManager_update c dt m h = update_loop c m2 h []"
    by (simp add: PhysicsManager_update_def Let_def m2_def)
  with assms have "update_loop c m2 h [] = Some r" by simp
  from update_loop_accumulator [OF this] show ?thesis by (simp add: m2_def)
qed

lemma reachable_accumulator:
  "reachable m h \<Longrightarrow> accumulator m < fixedTimestep m \<and> 0 < fixedTimestep m"
proof (induction rule: reachable.induct)
  case (initial c h)
  then show ?case by (simp add: PhysicsManager_new_def)
next
  case (update m h c deltaTime m' h' evs)
  from update_accumulator [OF update(2)] update(3) show ?case by simp
qed (simp_all add: registerRigidbody_def unregisterRigidbody_def registerCollider_def
       unregisterCollider_def PhysicsManager_set_gravity_def)


text \<open>
  C4. In every reachable state \<open>update(0)\<close> runs no fixed step: the accumulator is below
  the timestep, so the loop body (integration, detection, dispatch) is not entered, no
  callback is made, and manager and store are returned unchanged.
\<close>

theorem update_zero_idle:
  assumes "reachable m h"
  shows "PhysicsManager_update c 0 m h = Some (m, h, []) \<and> accumulator m + 0 < fixedTimestep m"
proof -
  from reachable_accumulator [OF assms]
  have a: "accumulator m < fixedTimestep m" and t: "0 < fixedTimestep m" by simp_all
  then have "\<not> accumulator m > fixedTimestep m * 5" by simp
  then have "PhysicsManager_update c 0 m h = update_loop c m h []"
    by (simp add: PhysicsManager_update_def Let_def)
  with a show ?thesis by (simp add: update_loop_exit)
qed


lemma ray_updateBounds:
  "Collider_updateBounds
     (ray_heap\<lparr>colliderObjs := (colliderObjs ray_heap)(2 := (colliderObjs ray_heap 2)\<lparr>bounds := b\<rparr>)\<rparr>) 2 =
   Some (ray_heap\<lparr>colliderObjs := (colliderObjs ray_heap)
           (2 := (colliderObjs ray_heap 2)\<lparr>bounds := Some \<lparr> aabb_min = Vector2 8 (- 2), aabb_max = Vector2 12 2 \<rparr>\<rparr>)\<rparr>)"
  by (simp add: Collider_updateBounds_def Collider_computeBounds_def
      Collider_getWorldPosition_def Shape_computeBounds_def ray_heap_def Heap_new_def Collider_new_def
      Let_def Vector2_multiply_def)

lemma ray_heap_self:
  "ray_heap = ray_heap\<lparr>colliderObjs := (colliderObjs ray_heap)(2 := (colliderObjs ray_heap 2)\<lparr>bounds := None\<rparr>)\<rparr>"
  by (simp add: ray_heap_def Heap_new_def Collider_new_def)

lemma ray_fixedUpdate:
  assumes "colliders m = [2]" and "rigidbodies m = []"
  shows "PhysicsManager_fixedUpdate PhysicsConstants_default dt m ray_heap =
     Some (m\<lparr>collisionPairs := []\<rparr>,
           ray_heap\<lparr>colliderObjs := (colliderObjs ray_heap)
             (2 := (colliderObjs ray_heap 2)\<lparr>bounds := Some \<lparr> aabb_min = Vector2 8 (- 2), aabb_max = Vector2 12 2 \<rparr>\<rparr>)\<rparr>,
           [])"
proof -
  let ?h = "ray_heap\<lparr>colliderObjs := (colliderObjs ray_heap)
             (2 := (colliderObjs ray_heap 2)\<lparr>bounds := Some \<lparr> aabb_min = Vector2 8 (- 2), aabb_max = Vector2 12 2 \<rparr>\<rparr>)\<rparr>"
  note m = assms
  have e: "enabled (colliderObjs ray_heap 2)" "enabled (colliderObjs ?h 2)"
    by (simp_all add: ray_heap_def Heap_new_def Collider_new_def)
  have i: "integrateBodies PhysicsConstants_default dt m ray_heap = ray_heap"
    by (simp add: integrateBodies_def m)
  have u0: "updateBoundsAll m ray_heap = Some ?h"
    using ray_updateBounds [of None] e by (simp add: updateBoundsAll_def m ray_heap_self [symmetric])
  have u1: "updateBoundsAll m ?h = Some ?h"
    using ray_updateBounds [of "Some \<lparr> aabb_min = Vector2 8 (- 2), aabb_max = Vector2 12 2 \<rparr>"] e
    by (simp add: updateBoundsAll_def m)
  have s: "updateCollisionStates m ?h = ?h"
    using e by (simp add: updateCollisionStates_def m Collider_updateCollisionState_def
        ray_heap_def Heap_new_def Collider_new_def)
  have p: "positionSolver PhysicsConstants_default m [] ?h = Some ?h"
    by (simp add: positionSolver_def PhysicsConstants_default_def u1 upt_rec)
  have d: "dispatchCollisionEvents m ?h [] = []"
    using e by (simp add: dispatchCollisionEvents_def m dispatch_exit_def)
  show ?thesis
    using e by (simp add: PhysicsManager_fixedUpdate_def i u0 s p d m velocitySolver_def)
qed

lemma ray_update:
  "PhysicsManager_update PhysicsConstants_default (1 / 60) ray_manager ray_heap =
     Some (ray_manager,
           ray_heap\<lparr>colliderObjs := (colliderObjs ray_heap)
             (2 := (colliderObjs ray_heap 2)\<lparr>bounds := Some \<lparr> aabb_min = Vector2 8 (- 2), aabb_max = Vector2 12 2 \<rparr>\<rparr>)\<rparr>,
           [])"
proof -
  let ?m = "ray_manager\<lparr>accumulator := 1 / 60\<rparr>"
  have f: "accumulator ray_manager = 0" "fixedTimestep ray_manager = 1 / 60"
    "colliders ?m = [2]" "rigidbodies ?m = []"
    "ray_manager\<lparr>collisionPairs := [], accumulator := 0\<rparr> = ray_manager"
    by (simp_all add: ray_manager_def registerCollider_def PhysicsManager_new_def
        PhysicsConstants_default_def)
  have a: "PhysicsManager_update PhysicsConstants_default (1 / 60) ray_manager ray_heap =
      update_loop PhysicsConstants_default ?m ray_heap []"
    by (simp add: PhysicsManager_update_def Let_def f)
  show ?thesis
    unfolding a
    by (simp add: update_loop_step f ray_fixedUpdate [OF f(3) f(4)] update_loop_exit)
qed

theorem update_zero_idle_witness:
  "reachable ray_manager
     (ray_heap\<lparr>colliderObjs := (colliderObjs ray_heap)
        (2 := (colliderObjs ray_heap 2)\<lparr>bounds := Some \<lparr> aabb_min = Vector2 8 (- 2), aabb_max = Vector2 12 2 \<rparr>\<rparr>)\<rparr>) \<and>
   PhysicsManager_update PhysicsConstants_default 0 ray_manager
     (ray_heap\<lparr>colliderObjs := (colliderObjs ray_heap)
        (2 := (colliderObjs ray_heap 2)\<lparr>bounds := Some \<lparr> aabb_min = Vector2 8 (- 2), aabb_max = Vector2 12 2 \<rparr>\<rparr>)\<rparr>) =
     Some (ray_manager,
           ray_heap\<lparr>colliderObjs := (colliderObjs ray_heap)
             (2 := (colliderObjs ray_heap 2)\<lparr>bounds := Some \<lparr> aabb_min = Vector2 8 (- 2), aabb_max = Vector2 12 2 \<rparr>\<rparr>)\<rparr>,
           []) \<and>
   accumulator ray_manager + 0 < fixedTimestep ray_manager"
proof -
  have "0 < FIXED_TIMESTEP PhysicsConstants_default"
    by (simp add: PhysicsConstants_default_def)
  then have "reachable (PhysicsManager_new PhysicsConstants_default) ray_heap"
    by (rule reachable.initial)
  then have "reachable ray_manager ray_heap"
    unfolding ray_manager_def by (rule reachable.registerCollider)
  then have r: "reachable ray_manager
     (ray_heap\<lparr>colliderObjs := (colliderObjs ray_heap)
        (2 := (colliderObjs ray_heap 2)\<lparr>bounds := Some \<lparr> aabb_min = Vector2 8 (- 2), aabb_max = Vector2 12 2 \<rparr>\<rparr>)\<rparr>)"
    using ray_update by (rule reachable.update)
  from update_zero_idle [OF r, of PhysicsConstants_default] r show ?thesis
    by (simp only: simp_thms)
qed

end
